theory Spec2Isabelle
  imports Main
begin

section \<open>Errors and metadata values\<close>

text \<open>
  The exception classes that the modelled parts of \<^verbatim>\<open>cubes/model.py\<close> raise, either
  explicitly (the classes of \<^verbatim>\<open>cubes.errors\<close>) or through the Python runtime
  (\<^verbatim>\<open>KeyError\<close>, \<^verbatim>\<open>TypeError\<close>, \<^verbatim>\<open>NameError\<close>, \<^verbatim>\<open>AttributeError\<close>).
  Messages are left out; \<^verbatim>\<open>TemplateRequired\<close> keeps its argument, the template name.
\<close>

datatype error =
    ModelError
  | ModelInconsistencyError
  | HierarchyError
  | ArgumentError
  | NoSuchAttributeError
  | NoSuchDimensionError
  | TemplateRequired string
  | KeyError
  | TypeError
  | NameError
  | AttributeError

text \<open>
  Free-form metadata (what \<^verbatim>\<open>json.load\<close> produces): a dictionary is an association
  list with one entry per key. Floating point numbers are not part of the model.
\<close>

datatype json =
    JNull
  | JBool bool
  | JInt int
  | JStr string
  | JList "json list"
  | JDict "(string \<times> json) list"

section \<open>Aggregate references\<close>

text \<open>\<^verbatim>\<open>aggregate_ref\<close>: \<^verbatim>\<open>"%s_%s" % (measure, aggregate)\<close>.\<close>

definition aggregate_ref :: "string \<Rightarrow> string \<Rightarrow> string" where
  "aggregate_ref measure_name aggregate = measure_name @ ''_'' @ aggregate"

text \<open>\<^verbatim>\<open>str.rfind\<close> for a one-character needle: the highest index, or \<open>-1\<close>.\<close>

fun rfind :: "string \<Rightarrow> char \<Rightarrow> int" where
  "rfind [] c = - 1"
| "rfind (x # xs) c =
     (let r = rfind xs c
      in if r \<noteq> - 1 then r + 1 else if x = c then 0 else - 1)"

text \<open>
  \<^verbatim>\<open>split_aggregate_ref\<close>: the reference is cut at its last underscore; a reference
  without underscore, or whose last character is the underscore, is an
  \<^verbatim>\<open>ArgumentError\<close>.
\<close>

definition split_aggregate_ref :: "string \<Rightarrow> error + (string \<times> string)" where
  "split_aggregate_ref measure_ref =
     (let r = rfind measure_ref CHR ''_''
      in if r = - 1 \<or> r \<ge> int (length measure_ref) - 1 then Inl ArgumentError
         else Inr (take (nat r) measure_ref, drop (nat (r + 1)) measure_ref))"

section \<open>The object graph\<close>

text \<open>
  Levels and dimensions are objects with an identity: they live in a store, at an
  address. Attributes are kept by value inside their level, and hierarchies by value
  inside their dimension; a reference from a level to one of its own attributes
  (\<^verbatim>\<open>key\<close>, \<^verbatim>\<open>label_attribute\<close>, \<^verbatim>\<open>order_attribute\<close>) is kept as that attribute's name,
  \<open>None\<close> standing for Python's \<^verbatim>\<open>None\<close>. Back references to the owning dimension are
  addresses.
\<close>

type_synonym addr = nat

record attribute =
  attr_name :: string
  attr_label :: "string option"
  attr_locales :: "string list"
  attr_order :: "string option"
  attr_description :: "string option"
  attr_dimension :: "addr option"
  attr_aggregations :: "string list option"
  attr_info :: json
  attr_format :: "string option"

record level =
  level_name :: string
  level_dimension :: "addr option"
  level_label :: "string option"
  level_info :: json
  level_attributes :: "attribute list"
  level_key :: "string option"
  level_label_attribute :: "string option"
  level_order_attribute :: "string option"
  level_order :: "string option"

text \<open>A level reference of a hierarchy is a level name or a \<^verbatim>\<open>Level\<close> object.\<close>

datatype level_ref = LevelName string | LevelObj addr

text \<open>
  \<^verbatim>\<open>Hierarchy\<close>: \<open>hier_level_refs\<close> is \<^verbatim>\<open>_level_refs\<close>, \<open>hier_levels\<close> is the
  \<^verbatim>\<open>_levels\<close> ordered dictionary (\<open>None\<close> until the references are resolved), and
  \<open>hier_dimension\<close> is the \<^verbatim>\<open>dimension\<close> attribute, \<open>None\<close> while it has not been set.
\<close>

record hierarchy =
  hier_name :: string
  hier_label :: "string option"
  hier_info :: json
  hier_level_refs :: "level_ref list"
  hier_levels :: "(string \<times> addr) list option"
  hier_dimension :: "addr option"

text \<open>
  \<^verbatim>\<open>Dimension\<close>: \<open>dim_levels\<close> is the \<^verbatim>\<open>_levels\<close> ordered dictionary and
  \<open>dim_hierarchies\<close> the \<^verbatim>\<open>hierarchies\<close> dictionary, both association lists with one
  entry per key.
\<close>

record dimension =
  dim_name :: string
  dim_label :: "string option"
  dim_description :: "string option"
  dim_info :: json
  dim_levels :: "(string \<times> addr) list"
  dim_hierarchies :: "(string \<times> hierarchy) list"
  dim_flat_hierarchy :: "hierarchy option"
  dim_default_hierarchy_name :: "string option"

record store =
  level_heap :: "addr \<Rightarrow> level"
  dim_heap :: "addr \<Rightarrow> dimension"
  next_addr :: addr

text \<open>Assignment to a key of an (ordered) dictionary: a present key keeps its place.\<close>

fun od_set :: "('k \<times> 'v) list \<Rightarrow> 'k \<Rightarrow> 'v \<Rightarrow> ('k \<times> 'v) list" where
  "od_set [] k v = [(k, v)]"
| "od_set ((k', v') # kvs) k v =
     (if k' = k then (k, v) # kvs else (k', v') # od_set kvs k v)"

text \<open>\<^verbatim>\<open>list.index\<close>: the first position of the element, \<open>None\<close> for \<^verbatim>\<open>ValueError\<close>.\<close>

fun list_index :: "'a list \<Rightarrow> 'a \<Rightarrow> nat option" where
  "list_index [] y = None"
| "list_index (x # xs) y =
     (if x = y then Some 0 else map_option Suc (list_index xs y))"

section \<open>Attributes and levels\<close>

text \<open>Truth value of a metadata value, as Python's \<^verbatim>\<open>if\<close>, \<^verbatim>\<open>or\<close> and \<^verbatim>\<open>not\<close> take it.\<close>

fun json_true :: "json \<Rightarrow> bool" where
  "json_true JNull = False"
| "json_true (JBool b) = b"
| "json_true (JInt i) = (i \<noteq> 0)"
| "json_true (JStr s) = (s \<noteq> [])"
| "json_true (JList xs) = (xs \<noteq> [])"
| "json_true (JDict kvs) = (kvs \<noteq> [])"

text \<open>Truth value of an optional string: \<^verbatim>\<open>None\<close> and \<^verbatim>\<open>""\<close> are false.\<close>

fun str_true :: "string option \<Rightarrow> bool" where
  "str_true None = False"
| "str_true (Some s) = (s \<noteq> [])"

text \<open>\<^verbatim>\<open>str.lower\<close> on ASCII and \<^verbatim>\<open>str.startswith\<close>.\<close>

definition lower_char :: "char \<Rightarrow> char" where
  "lower_char c =
     (if (65::nat) \<le> of_char c \<and> of_char c \<le> (90::nat)
      then char_of (of_char c + (32::nat)) else c)"

definition startswith :: "string \<Rightarrow> string \<Rightarrow> bool" where
  "startswith s p = (take (length p) s = p)"

text \<open>
  The keyword arguments of an attribute given as a dictionary; \<open>None\<close> is an absent
  key. A dictionary without \<^verbatim>\<open>name\<close> cannot be passed to \<^verbatim>\<open>Attribute\<close>: \<^verbatim>\<open>TypeError\<close>.
\<close>

record attribute_md =
  amd_name :: "string option"
  amd_label :: "string option"
  amd_locales :: "string list option"
  amd_order :: "string option"
  amd_description :: "string option"
  amd_aggregations :: "string list option"
  amd_info :: "json option"
  amd_format :: "string option"

datatype attribute_spec = AttrName string | AttrDict attribute_md | AttrObj attribute

text \<open>
  \<^verbatim>\<open>Attribute.__init__\<close>, arguments in the order name, label, locales, order,
  description, dimension, aggregations, info, format.
\<close>

definition Attribute_init ::
  "string \<Rightarrow> string option \<Rightarrow> string list option \<Rightarrow> string option \<Rightarrow> string option
   \<Rightarrow> addr option \<Rightarrow> string list option \<Rightarrow> json option \<Rightarrow> string option
   \<Rightarrow> error + attribute"
where
  "Attribute_init name label locales order description dimension aggregations info format =
     (let info' = (case info of None \<Rightarrow> JDict [] | Some i \<Rightarrow> if json_true i then i else JDict []);
          locales' = (case locales of None \<Rightarrow> [] | Some ls \<Rightarrow> ls);
          mk = (\<lambda>ord. \<lparr> attr_name = name, attr_label = label, attr_locales = locales',
                         attr_order = ord, attr_description = description,
                         attr_dimension = dimension, attr_aggregations = aggregations,
                         attr_info = info', attr_format = format \<rparr>)
      in if str_true order then
           (let low = map lower_char (the order)
            in if startswith low ''asc'' then Inr (mk (Some ''asc''))
               else if startswith low ''desc'' then Inr (mk (Some ''desc''))
               else Inl ArgumentError)
         else Inr (mk None))"

text \<open>\<^verbatim>\<open>coalesce_attribute\<close> (with the default attribute class) and \<^verbatim>\<open>attribute_list\<close>.\<close>

definition coalesce_attribute :: "attribute_spec \<Rightarrow> addr option \<Rightarrow> error + attribute" where
  "coalesce_attribute obj dimension =
     (case obj of
        AttrName n \<Rightarrow> Attribute_init n None None None None dimension None None None
      | AttrDict md \<Rightarrow>
          (case amd_name md of
             None \<Rightarrow> Inl TypeError
           | Some n \<Rightarrow>
               Attribute_init n (amd_label md) (amd_locales md) (amd_order md)
                 (amd_description md) dimension (amd_aggregations md) (amd_info md)
                 (amd_format md))
      | AttrObj a \<Rightarrow> Inr a)"

fun attribute_list :: "attribute_spec list \<Rightarrow> addr option \<Rightarrow> error + attribute list" where
  "attribute_list [] dimension = Inr []"
| "attribute_list (obj # objs) dimension =
     (case coalesce_attribute obj dimension of
        Inl e \<Rightarrow> Inl e
      | Inr a \<Rightarrow>
          (case attribute_list objs dimension of
             Inl e \<Rightarrow> Inl e
           | Inr as \<Rightarrow> Inr (a # as)))"

text \<open>
  \<^verbatim>\<open>Level.attribute\<close>: the first attribute of that name, or \<^verbatim>\<open>NoSuchAttributeError\<close>.
  The result is the attribute's name, which is how the level refers to it.
\<close>

definition Level_attribute :: "attribute list \<Rightarrow> string \<Rightarrow> error + string" where
  "Level_attribute attrs name =
     (case filter (\<lambda>a. attr_name a = name) attrs of
        [] \<Rightarrow> Inl NoSuchAttributeError
      | a # _ \<Rightarrow> Inr (attr_name a))"

text \<open>
  \<^verbatim>\<open>Level.__init__\<close>, arguments in the order name, attributes, dimension, key,
  order_attribute, order, label_attribute, label, info.
\<close>

definition Level_init ::
  "string \<Rightarrow> attribute_spec list \<Rightarrow> addr option \<Rightarrow> string option \<Rightarrow> string option
   \<Rightarrow> string option \<Rightarrow> string option \<Rightarrow> string option \<Rightarrow> json option \<Rightarrow> error + level"
where
  "Level_init name attributes dimension key order_attribute order label_attribute label info =
     (if attributes = [] then Inl ModelError
      else case attribute_list attributes dimension of
        Inl e \<Rightarrow> Inl e
      | Inr attrs \<Rightarrow>
         (case (if str_true key then Level_attribute attrs (the key)
                else if length attrs \<ge> 1 then Inr (attr_name (attrs ! 0))
                else Inl ModelInconsistencyError) of
            Inl e \<Rightarrow> Inl e
          | Inr k \<Rightarrow>
             (case (if str_true label_attribute then Level_attribute attrs (the label_attribute)
                    else if length attrs > 1 then Inr (attr_name (attrs ! 1))
                    else Inr k) of
                Inl e \<Rightarrow> Inl e
              | Inr la \<Rightarrow>
                 (case (if str_true order_attribute
                        then Level_attribute attrs (the order_attribute)
                        else Inr (attr_name (attrs ! 0))) of
                    Inl e \<Rightarrow> Inl e
                  | Inr oa \<Rightarrow>
                      Inr \<lparr> level_name = name, level_dimension = dimension,
                            level_label = label,
                            level_info = (case info of None \<Rightarrow> JDict []
                                          | Some i \<Rightarrow> if json_true i then i else JDict []),
                            level_attributes = attrs, level_key = Some k,
                            level_label_attribute = Some la,
                            level_order_attribute = Some oa,
                            level_order = order \<rparr>))))"

section \<open>Hierarchy\<close>

text \<open>\<^verbatim>\<open>Dimension.level\<close>: a name is looked up (\<^verbatim>\<open>KeyError\<close>), an object is returned.\<close>

definition Dimension_level :: "dimension \<Rightarrow> level_ref \<Rightarrow> error + addr" where
  "Dimension_level d obj =
     (case obj of
        LevelName n \<Rightarrow> (case map_of (dim_levels d) n of None \<Rightarrow> Inl KeyError | Some a \<Rightarrow> Inr a)
      | LevelObj a \<Rightarrow> Inr a)"

text \<open>The loop of \<^verbatim>\<open>Hierarchy._set_levels\<close>, with the dictionary built so far.\<close>

fun resolve_levels ::
  "store \<Rightarrow> dimension \<Rightarrow> level_ref list \<Rightarrow> (string \<times> addr) list \<Rightarrow> error + (string \<times> addr) list"
where
  "resolve_levels st d [] acc = Inr acc"
| "resolve_levels st d (r # rs) acc =
     (case Dimension_level d r of
        Inl e \<Rightarrow> Inl e
      | Inr a \<Rightarrow> resolve_levels st d rs (od_set acc (level_name (level_heap st a)) a))"

text \<open>
  \<^verbatim>\<open>Hierarchy._set_levels\<close>: an empty list is a \<^verbatim>\<open>ModelInconsistencyError\<close>; a
  hierarchy whose \<^verbatim>\<open>dimension\<close> was never set fails with \<^verbatim>\<open>AttributeError\<close>. The result
  is the new value of \<^verbatim>\<open>_levels\<close>.
\<close>

definition Hierarchy_set_levels ::
  "store \<Rightarrow> hierarchy \<Rightarrow> level_ref list \<Rightarrow> error + (string \<times> addr) list"
where
  "Hierarchy_set_levels st h levels =
     (if levels = [] then Inl ModelInconsistencyError
      else case hier_dimension h of
             None \<Rightarrow> Inl AttributeError
           | Some da \<Rightarrow> resolve_levels st (dim_heap st da) levels [])"

text \<open>
  The properties \<^verbatim>\<open>levels_dict\<close> and \<^verbatim>\<open>levels\<close>: \<^verbatim>\<open>_levels\<close> is resolved first when
  it is \<^verbatim>\<open>None\<close> or empty. The functions give what the property returns.
\<close>

definition Hierarchy_levels_dict :: "store \<Rightarrow> hierarchy \<Rightarrow> error + (string \<times> addr) list" where
  "Hierarchy_levels_dict st h =
     (case hier_levels h of
        None \<Rightarrow> Hierarchy_set_levels st h (hier_level_refs h)
      | Some [] \<Rightarrow> Hierarchy_set_levels st h (hier_level_refs h)
      | Some (kv # kvs) \<Rightarrow> Inr (kv # kvs))"

definition Hierarchy_levels :: "store \<Rightarrow> hierarchy \<Rightarrow> error + addr list" where
  "Hierarchy_levels st h =
     (case Hierarchy_levels_dict st h of Inl e \<Rightarrow> Inl e | Inr kvs \<Rightarrow> Inr (map snd kvs))"

text \<open>\<^verbatim>\<open>str(level)\<close> of a level name or of a \<^verbatim>\<open>Level\<close> object.\<close>

definition level_str :: "store \<Rightarrow> level_ref \<Rightarrow> string" where
  "level_str st obj =
     (case obj of LevelName n \<Rightarrow> n | LevelObj a \<Rightarrow> level_name (level_heap st a))"

text \<open>\<^verbatim>\<open>Hierarchy.level_index\<close>: the \<^verbatim>\<open>ValueError\<close> of \<^verbatim>\<open>index\<close> becomes \<^verbatim>\<open>HierarchyError\<close>.\<close>

definition level_index :: "store \<Rightarrow> hierarchy \<Rightarrow> level_ref \<Rightarrow> error + nat" where
  "level_index st h lvl =
     (case Hierarchy_levels_dict st h of
        Inl e \<Rightarrow> Inl e
      | Inr kvs \<Rightarrow>
          (case list_index (map fst kvs) (level_str st lvl) of
             None \<Rightarrow> Inl HierarchyError
           | Some i \<Rightarrow> Inr i))"

text \<open>
  Truth value of the \<^verbatim>\<open>level\<close> argument: \<^verbatim>\<open>None\<close> and the empty string are false, a
  \<^verbatim>\<open>Level\<close> object is true.
\<close>

fun level_arg_true :: "level_ref option \<Rightarrow> bool" where
  "level_arg_true None = False"
| "level_arg_true (Some (LevelName n)) = (n \<noteq> [])"
| "level_arg_true (Some (LevelObj a)) = True"

text \<open>
  \<^verbatim>\<open>Hierarchy.rollup\<close>. The path is a list; \<^verbatim>\<open>path[0:last]\<close> is \<open>take last path\<close>.
\<close>

definition rollup ::
  "store \<Rightarrow> hierarchy \<Rightarrow> 'a list \<Rightarrow> level_ref option \<Rightarrow> error + 'a list"
where
  "rollup st h path lvl =
     (if level_arg_true lvl then
        (case level_index st h (the lvl) of
           Inl e \<Rightarrow> Inl e
         | Inr i \<Rightarrow>
             (let last = i + 1
              in if last > length path then Inl HierarchyError else Inr (take last path)))
      else if length path > 0 then Inr (take (length path - 1) path)
      else Inr [])"

text \<open>
  \<^verbatim>\<open>Hierarchy.path_is_base\<close>: \<^verbatim>\<open>path != None and len(path) == len(self.levels)\<close>; the
  levels are not read for a \<^verbatim>\<open>None\<close> path.
\<close>

definition path_is_base :: "store \<Rightarrow> hierarchy \<Rightarrow> 'a list option \<Rightarrow> error + bool" where
  "path_is_base st h path =
     (case path of
        None \<Rightarrow> Inr False
      | Some p \<Rightarrow>
          (case Hierarchy_levels st h of
             Inl e \<Rightarrow> Inl e
           | Inr ls \<Rightarrow> Inr (length p = length ls)))"

text \<open>
  The truth value of a hierarchy object is that of \<^verbatim>\<open>__len__\<close>, the number of its
  levels, whose computation can raise.
\<close>

definition Hierarchy_truth :: "store \<Rightarrow> hierarchy \<Rightarrow> error + bool" where
  "Hierarchy_truth st h =
     (case Hierarchy_levels st h of Inl e \<Rightarrow> Inl e | Inr ls \<Rightarrow> Inr (length ls \<noteq> 0))"

section \<open>Default hierarchy of a dimension\<close>

text \<open>
  \<^verbatim>\<open>Hierarchy.__len__\<close> is \<^verbatim>\<open>len(self.levels)\<close>, and reading \<^verbatim>\<open>levels\<close> resolves the
  level references when \<^verbatim>\<open>_levels\<close> is \<^verbatim>\<open>None\<close> or empty and keeps the result in the
  object. The function gives the length together with the hierarchy object as the call
  leaves it. A truth test of a hierarchy (\<^verbatim>\<open>not hierarchy\<close>) is this call.
\<close>

definition Hierarchy_len :: "store \<Rightarrow> hierarchy \<Rightarrow> error + (nat \<times> hierarchy)" where
  "Hierarchy_len st h =
     (case Hierarchy_levels_dict st h of
        Inl e \<Rightarrow> Inl e
      | Inr kvs \<Rightarrow> Inr (length kvs, h\<lparr>hier_levels := Some kvs\<rparr>))"

text \<open>
  The part of \<^verbatim>\<open>Dimension._default_hierarchy\<close> that runs when the lookup by name gave
  nothing. The result is the hierarchy returned and the dimension as the call leaves
  it. With no hierarchy and one level, the cached \<^verbatim>\<open>_flat_hierarchy\<close> is returned when it
  is set; otherwise the code evaluates \<^verbatim>\<open>level.name\<close>, and \<^verbatim>\<open>level\<close> is not a name of that
  scope: \<^verbatim>\<open>NameError\<close>, before anything is assigned.
\<close>

definition default_hierarchy_fallback ::
  "store \<Rightarrow> dimension \<Rightarrow> error + (hierarchy \<times> dimension)"
where
  "default_hierarchy_fallback st d =
     (if length (dim_hierarchies d) = 1 then Inr (snd (hd (dim_hierarchies d)), d)
      else if dim_hierarchies d = [] then
        (if length (dim_levels d) = 1 then
           (case dim_flat_hierarchy d of
              None \<Rightarrow> Inl NameError
            | Some fh \<Rightarrow>
                (case Hierarchy_len st fh of
                   Inl e \<Rightarrow> Inl e
                 | Inr (n, fh') \<Rightarrow>
                     if n \<noteq> 0 then Inr (fh', d\<lparr>dim_flat_hierarchy := Some fh'\<rparr>)
                     else Inl NameError))
         else if length (dim_levels d) > 1 then Inl ModelError
         else Inl ModelError)
      else Inl ModelError)"

text \<open>
  \<^verbatim>\<open>Dimension._default_hierarchy\<close>. The hierarchy found under the name is tested for
  truth, which resolves its levels: the dictionary \<^verbatim>\<open>hierarchies\<close> then holds, under the
  same name, the object with its levels resolved, and that object is returned.
\<close>

definition default_hierarchy :: "store \<Rightarrow> dimension \<Rightarrow> error + (hierarchy \<times> dimension)" where
  "default_hierarchy st d =
     (let hierarchy_name =
            (case dim_default_hierarchy_name d of
               None \<Rightarrow> ''default''
             | Some n \<Rightarrow> if n \<noteq> [] then n else ''default'')
      in case map_of (dim_hierarchies d) hierarchy_name of
           None \<Rightarrow> default_hierarchy_fallback st d
         | Some h \<Rightarrow>
             (case Hierarchy_len st h of
                Inl e \<Rightarrow> Inl e
              | Inr (n, h') \<Rightarrow>
                  (let d' = d\<lparr>dim_hierarchies := od_set (dim_hierarchies d) hierarchy_name h'\<rparr>
                   in if n \<noteq> 0 then Inr (h', d') else default_hierarchy_fallback st d')))"


section \<open>Cube\<close>

text \<open>
  \<^verbatim>\<open>Cube\<close>. Fields that hold free-form metadata are \<open>json\<close> values, \<open>JNull\<close> being
  \<^verbatim>\<open>None\<close>; \<open>cube_dimensions\<close> is the \<^verbatim>\<open>_dimensions\<close> ordered dictionary.
\<close>

record cube =
  cube_name :: string
  cube_locale :: "string option"
  cube_label :: "string option"
  cube_description :: "string option"
  cube_info :: json
  cube_category :: json
  cube_measures :: "attribute list"
  cube_details :: "attribute list"
  cube_mappings :: json
  cube_fact :: json
  cube_joins :: json
  cube_key :: json
  cube_browser_options :: json
  cube_datastore :: json
  cube_browser :: json
  cube_linked_dimensions :: json
  cube_dimensions :: "(string \<times> addr) list"

text \<open>The arguments of \<^verbatim>\<open>Cube.__init__\<close>; an absent argument has its default, \<^verbatim>\<open>None\<close>.\<close>

record cube_args =
  ca_name :: string
  ca_dimensions :: "addr list option"
  ca_measures :: "attribute_spec list option"
  ca_label :: "string option"
  ca_details :: "attribute_spec list option"
  ca_mappings :: json
  ca_joins :: json
  ca_fact :: json
  ca_key :: json
  ca_description :: "string option"
  ca_browser_options :: json
  ca_info :: json
  ca_linked_dimensions :: json
  ca_locale :: "string option"
  ca_category :: json
  ca_datastore :: json
  ca_options :: "(string \<times> json) list"

text \<open>\<^verbatim>\<open>RECORD_COUNT_MEASURE\<close>.\<close>

definition RECORD_COUNT_MEASURE :: attribute_md where
  "RECORD_COUNT_MEASURE =
     \<lparr> amd_name = Some ''record'', amd_label = Some ''Count'', amd_locales = None,
       amd_order = None, amd_description = None,
       amd_aggregations = Some [''count'', ''sma''], amd_info = None, amd_format = None \<rparr>"

text \<open>\<^verbatim>\<open>dict.get(key)\<close> on a metadata dictionary: \<^verbatim>\<open>None\<close> for an absent key.\<close>

definition dict_get :: "(string \<times> json) list \<Rightarrow> string \<Rightarrow> json" where
  "dict_get kvs k = (case map_of kvs k of None \<Rightarrow> JNull | Some v \<Rightarrow> v)"

text \<open>\<^verbatim>\<open>a or b\<close> on metadata values.\<close>

definition json_or :: "json \<Rightarrow> json \<Rightarrow> json" where
  "json_or a b = (if json_true a then a else b)"

text \<open>
  \<^verbatim>\<open>Cube.add_dimension\<close> on the \<^verbatim>\<open>_dimensions\<close> dictionary: a name that is present is a
  \<^verbatim>\<open>ModelError\<close>.
\<close>

definition Cube_add_dimension ::
  "store \<Rightarrow> (string \<times> addr) list \<Rightarrow> addr \<Rightarrow> error + (string \<times> addr) list"
where
  "Cube_add_dimension st dims a =
     (let n = dim_name (dim_heap st a)
      in if n \<in> set (map fst dims) then Inl ModelError else Inr (od_set dims n a))"

fun Cube_add_dimensions ::
  "store \<Rightarrow> (string \<times> addr) list \<Rightarrow> addr list \<Rightarrow> error + (string \<times> addr) list"
where
  "Cube_add_dimensions st dims [] = Inr dims"
| "Cube_add_dimensions st dims (a # as) =
     (case Cube_add_dimension st dims a of
        Inl e \<Rightarrow> Inl e
      | Inr dims' \<Rightarrow> Cube_add_dimensions st dims' as)"

text \<open>
  \<^verbatim>\<open>Cube.__init__\<close>. Without measures (\<^verbatim>\<open>None\<close> or an empty list) the list is a copy of
  \<^verbatim>\<open>RECORD_COUNT_MEASURE\<close>. The dimensions are objects of class \<^verbatim>\<open>Dimension\<close>, so the
  instance test holds for all of them.
\<close>

definition Cube_init :: "store \<Rightarrow> cube_args \<Rightarrow> error + cube" where
  "Cube_init st args =
     (let info = json_or (ca_info args) (JDict [])
      in case (case info of JDict kvs \<Rightarrow> Inr (dict_get kvs ''category'')
               | _ \<Rightarrow> if json_true (ca_category args) then Inr JNull else Inl AttributeError) of
        Inl e \<Rightarrow> Inl e
      | Inr info_category \<Rightarrow>
       (let measure_specs = (case ca_measures args of
                               None \<Rightarrow> [AttrDict RECORD_COUNT_MEASURE]
                             | Some [] \<Rightarrow> [AttrDict RECORD_COUNT_MEASURE]
                             | Some (m # ms) \<Rightarrow> m # ms)
        in case attribute_list measure_specs None of
          Inl e \<Rightarrow> Inl e
        | Inr ms \<Rightarrow>
           (case attribute_list (case ca_details args of None \<Rightarrow> [] | Some ds \<Rightarrow> ds) None of
              Inl e \<Rightarrow> Inl e
            | Inr ds \<Rightarrow>
               (case Cube_add_dimensions st []
                       (case ca_dimensions args of None \<Rightarrow> [] | Some as \<Rightarrow> as) of
                  Inl e \<Rightarrow> Inl e
                | Inr dims \<Rightarrow>
                    Inr \<lparr> cube_name = ca_name args, cube_locale = ca_locale args,
                          cube_label = ca_label args,
                          cube_description = ca_description args,
                          cube_info = info,
                          cube_category = json_or (ca_category args) info_category,
                          cube_measures = ms, cube_details = ds,
                          cube_mappings = ca_mappings args, cube_fact = ca_fact args,
                          cube_joins = ca_joins args, cube_key = ca_key args,
                          cube_browser_options = json_or (ca_browser_options args) (JDict []),
                          cube_datastore =
                            json_or (ca_datastore args) (dict_get (ca_options args) ''datastore''),
                          cube_browser = dict_get (ca_options args) ''browser'',
                          cube_linked_dimensions =
                            json_or (ca_linked_dimensions args) (JList []),
                          cube_dimensions = dims \<rparr>))))"

section \<open>Validation\<close>

text \<open>
  A validation result is a pair of a tag (\<^verbatim>\<open>'error'\<close>, \<^verbatim>\<open>'warning'\<close> or \<^verbatim>\<open>'default'\<close>) and
  a message. The text of a message is not modelled: a message is the place that
  reports it, with the names it is formatted from.
\<close>

datatype message =
    NoLevels string
  | NoHierarchiesFlat string string
  | NoHierarchiesManyLevels string
  | NoHierarchies string
  | NoDefaultHierarchy string
  | DefaultHierarchyMissing string string
  | LevelNoAttributes string string
  | LevelNoKey string string
  | KeyNotInLevel string string
  | DuplicateAttribute string string string
  | AttributeOfOtherDimension string string
  | NoCubes
  | DuplicateMeasure string string
  | DuplicateDetail string string
  | DetailIsMeasure string string

type_synonym validation_result = "string \<times> message"










section \<open>Model\<close>

text \<open>
  \<^verbatim>\<open>Model\<close>: \<open>model_dimensions\<close> and \<open>model_cubes\<close> are the ordered dictionaries
  \<^verbatim>\<open>_dimensions\<close> and \<^verbatim>\<open>cubes\<close>. The provider, the raw metadata and the translations are
  not read by the operations below and are left out.
\<close>

record model =
  model_name :: "string option"
  model_label :: "string option"
  model_description :: "string option"
  model_locale :: "string option"
  model_info :: json
  model_mappings :: json
  model_dimensions :: "(string \<times> addr) list"
  model_cubes :: "(string \<times> cube) list"

text \<open>\<^verbatim>\<open>Model.add_dimension\<close>: a name that is present is a \<^verbatim>\<open>ModelInconsistencyError\<close>.\<close>

definition Model_add_dimension :: "store \<Rightarrow> addr \<Rightarrow> model \<Rightarrow> error + model" where
  "Model_add_dimension st a m =
     (let n = dim_name (dim_heap st a)
      in if n \<in> set (map fst (model_dimensions m)) then Inl ModelInconsistencyError
         else Inr (m\<lparr>model_dimensions := od_set (model_dimensions m) n a\<rparr>))"

text \<open>
  The loop of \<^verbatim>\<open>Model.add_cube\<close> over the cube's dimensions. \<open>my_dimensions\<close> and
  \<open>my_dimension_names\<close> are computed once, before the loop. Membership in
  \<open>my_dimensions\<close> is object identity (the class defines no \<^verbatim>\<open>__hash__\<close>, so the hash is
  the object's). The result pairs the exception raised, if any, with the model as the
  call leaves it.
\<close>

fun add_cube_loop ::
  "store \<Rightarrow> addr list \<Rightarrow> string list \<Rightarrow> addr list \<Rightarrow> model \<Rightarrow> error option \<times> model"
where
  "add_cube_loop st my_dimensions my_dimension_names [] m = (None, m)"
| "add_cube_loop st my_dimensions my_dimension_names (a # as) m =
     (if a \<notin> set my_dimensions then
        (if dim_name (dim_heap st a) \<notin> set my_dimension_names then
           (case Model_add_dimension st a m of
              Inl e \<Rightarrow> (Some e, m)
            | Inr m' \<Rightarrow> add_cube_loop st my_dimensions my_dimension_names as m')
         else (Some ModelInconsistencyError, m))
      else add_cube_loop st my_dimensions my_dimension_names as m)"

text \<open>\<^verbatim>\<open>Model.add_cube\<close>.\<close>

definition add_cube :: "store \<Rightarrow> cube \<Rightarrow> model \<Rightarrow> error option \<times> model" where
  "add_cube st c m =
     (let my_dimensions = map snd (model_dimensions m);
          my_dimension_names = map (\<lambda>a. dim_name (dim_heap st a)) my_dimensions
      in case add_cube_loop st my_dimensions my_dimension_names
                (map snd (cube_dimensions c)) m of
           (Some e, m') \<Rightarrow> (Some e, m')
         | (None, m') \<Rightarrow>
             (None, m'\<lparr>model_cubes := od_set (model_cubes m') (cube_name c) c\<rparr>))"

text \<open>
  When the loop of \<^verbatim>\<open>add_cube\<close> runs to its end: the dimensions it has to add are those
  that are not registered as objects; none of them may have the name of a dimension
  registered before the call or a key of the dictionary of dimensions, and no two of
  them the same name, since the second would find the first registered.
\<close>

definition new_dimensions :: "addr list \<Rightarrow> addr list \<Rightarrow> addr list" where
  "new_dimensions my_dimensions as = filter (\<lambda>a. a \<notin> set my_dimensions) as"

definition add_cube_loop_accepts ::
  "store \<Rightarrow> addr list \<Rightarrow> string list \<Rightarrow> addr list \<Rightarrow> model \<Rightarrow> bool"
where
  "add_cube_loop_accepts st my_dimensions my_dimension_names as m \<longleftrightarrow>
     distinct (map (\<lambda>a. dim_name (dim_heap st a)) (new_dimensions my_dimensions as))
     \<and> (\<forall>a \<in> set (new_dimensions my_dimensions as).
           dim_name (dim_heap st a) \<notin> set my_dimension_names
           \<and> dim_name (dim_heap st a) \<notin> set (map fst (model_dimensions m)))"

definition add_cube_accepts :: "store \<Rightarrow> cube \<Rightarrow> model \<Rightarrow> bool" where
  "add_cube_accepts st c m =
     add_cube_loop_accepts st (map snd (model_dimensions m))
       (map (\<lambda>a. dim_name (dim_heap st a)) (map snd (model_dimensions m)))
       (map snd (cube_dimensions c)) m"



text \<open>
  \<^verbatim>\<open>Model.is_valid\<close>, in two parts: the decision on the list that \<^verbatim>\<open>validate()\<close>
  returned, and the method itself.
\<close>

definition is_valid_results :: "bool \<Rightarrow> validation_result list \<Rightarrow> bool" where
  "is_valid_results strict results =
     (if results = [] then True
      else if strict then False
      else \<not> (\<exists>r \<in> set results. fst r = ''error''))"


section \<open>The default model provider\<close>

text \<open>
  A plain dictionary of metadata. \<^verbatim>\<open>dict.update\<close> assigns the entries of its argument
  one after the other; the order of the entries of a plain dictionary has no meaning.
\<close>

type_synonym pydict = "(string \<times> json) list"

definition dict_update :: "('k \<times> 'v) list \<Rightarrow> ('k \<times> 'v) list \<Rightarrow> ('k \<times> 'v) list" where
  "dict_update d e = fold (\<lambda>(k, v) acc. od_set acc k v) e d"

text \<open>
  The keys of the model metadata (\<^verbatim>\<open>self.metadata\<close>) that \<^verbatim>\<open>cube()\<close> reads, with the
  types the metadata format gives them: \<open>None\<close> is an absent key, \<open>JNull\<close> is what
  \<^verbatim>\<open>get\<close> returns for one.
\<close>

record model_metadata =
  mm_mappings :: "pydict option"
  mm_joins :: "pydict list option"
  mm_datastore :: json
  mm_browser_options :: "pydict option"

text \<open>
  The metadata of one cube: the keys that \<^verbatim>\<open>cube()\<close> reads or removes, and the other
  keys (\<^verbatim>\<open>name\<close>, \<^verbatim>\<open>label\<close>, \<^verbatim>\<open>measures\<close>, ...) in \<open>cmd_other\<close>.
\<close>

record cube_metadata =
  cmd_mappings :: "pydict option"
  cmd_joins :: "pydict list option"
  cmd_datastore :: json
  cmd_browser_options :: "pydict option"
  cmd_dimensions :: "json option"
  cmd_other :: pydict

text \<open>
  The state of a provider: \<^verbatim>\<open>self.metadata\<close> and \<^verbatim>\<open>self.cubes_metadata\<close>. The cube
  dictionaries are copied (\<^verbatim>\<open>dict(...)\<close>) before \<^verbatim>\<open>cube()\<close> changes them, so they are kept
  by value.
\<close>

record provider =
  prov_metadata :: model_metadata
  prov_cubes_metadata :: "(string \<times> cube_metadata) list"

text \<open>
  What \<^verbatim>\<open>cube()\<close> passes to the constructor in its last statement,
  \<^verbatim>\<open>Cube(linked_dimensions=dimensions, mappings=mappings, joins=cube_joins, **metadata)\<close>.
\<close>

record cube_call =
  cc_linked_dimensions :: json
  cc_mappings :: "pydict option"
  cc_joins :: "pydict list option"
  cc_datastore :: json
  cc_browser_options :: pydict
  cc_other :: pydict

text \<open>
  The value under \<^verbatim>\<open>name\<close> is a dictionary key of \<^verbatim>\<open>model_join_map\<close>: lists and
  dictionaries cannot be hashed (\<^verbatim>\<open>TypeError\<close>), and \<^verbatim>\<open>True\<close> and \<^verbatim>\<open>False\<close> are the keys
  \<^verbatim>\<open>1\<close> and \<^verbatim>\<open>0\<close>.
\<close>

fun hashable :: "json \<Rightarrow> bool" where
  "hashable (JList xs) = False"
| "hashable (JDict kvs) = False"
| "hashable v = True"

fun py_key :: "json \<Rightarrow> json" where
  "py_key (JBool b) = JInt (if b then 1 else 0)"
| "py_key v = v"

text \<open>
  The first loop of the join merge: \<^verbatim>\<open>model_join_map\<close> from the model-level joins. A join
  without \<^verbatim>\<open>name\<close> and a name seen before are a \<^verbatim>\<open>ModelError\<close>.
\<close>

fun build_join_map ::
  "pydict list \<Rightarrow> (json \<times> pydict) list \<Rightarrow> error + (json \<times> pydict) list"
where
  "build_join_map [] join_map = Inr join_map"
| "build_join_map (j # js) join_map =
     (case map_of j ''name'' of
        None \<Rightarrow> Inl ModelError
      | Some name \<Rightarrow>
          if \<not> hashable name then Inl TypeError
          else if py_key name \<in> set (map fst join_map) then Inl ModelError
          else build_join_map js (join_map @ [(py_key name, j)]))"

text \<open>
  The second loop. \<^verbatim>\<open>model_join_map.get(join.get('name'), {})\<close> is either the dictionary
  that the map holds under that name, the same object each time, or a new empty
  dictionary; \<^verbatim>\<open>update\<close> changes it in place and the list \<^verbatim>\<open>merged_joins\<close> holds the
  object. An element of the list is therefore a reference to an entry of the map or a
  dictionary of its own, and the entries are read once the loop has ended.
\<close>

datatype join_ref = Shared json | Fresh pydict

fun merge_joins_loop ::
  "(json \<times> pydict) list \<Rightarrow> pydict list \<Rightarrow> join_ref list
   \<Rightarrow> error + ((json \<times> pydict) list \<times> join_ref list)"
where
  "merge_joins_loop join_map [] merged = Inr (join_map, merged)"
| "merge_joins_loop join_map (j # js) merged =
     (let name = dict_get j ''name''
      in if \<not> hashable name then Inl TypeError
         else case map_of join_map (py_key name) of
                None \<Rightarrow> merge_joins_loop join_map js (merged @ [Fresh (dict_update [] j)])
              | Some model_join \<Rightarrow>
                  merge_joins_loop
                    (od_set join_map (py_key name) (dict_update model_join j)) js
                    (merged @ [Shared (py_key name)]))"

definition deref_join :: "(json \<times> pydict) list \<Rightarrow> join_ref \<Rightarrow> pydict" where
  "deref_join join_map r =
     (case r of
        Fresh d \<Rightarrow> d
      | Shared k \<Rightarrow> (case map_of join_map k of None \<Rightarrow> [] | Some d \<Rightarrow> d))"

text \<open>The join merge of \<^verbatim>\<open>cube()\<close>: it runs when both lists are there and non-empty.\<close>

definition merge_joins ::
  "pydict list option \<Rightarrow> pydict list option \<Rightarrow> error + pydict list option"
where
  "merge_joins cjoins mjoins =
     (case (cjoins, mjoins) of
        (Some (cj # cjs), Some (mj # mjs)) \<Rightarrow>
          (case build_join_map (mj # mjs) [] of
             Inl e \<Rightarrow> Inl e
           | Inr join_map \<Rightarrow>
               (case merge_joins_loop join_map (cj # cjs) [] of
                  Inl e \<Rightarrow> Inl e
                | Inr (join_map', merged) \<Rightarrow> Inr (Some (map (deref_join join_map') merged))))
      | _ \<Rightarrow> Inr cjoins)"

text \<open>
  The mappings: a copy of the model's, updated with the cube's. \<^verbatim>\<open>update(None)\<close>, for a
  cube without mappings, is a \<^verbatim>\<open>TypeError\<close>.
\<close>

definition merge_mappings :: "pydict option \<Rightarrow> pydict option \<Rightarrow> error + pydict option" where
  "merge_mappings mmappings cmappings =
     (case mmappings of
        Some (kv # kvs) \<Rightarrow>
          (case cmappings of
             None \<Rightarrow> Inl TypeError
           | Some cm \<Rightarrow> Inr (Some (dict_update (kv # kvs) cm)))
      | _ \<Rightarrow> Inr cmappings)"

text \<open>
  The browser options. \<^verbatim>\<open>self.metadata.get('browser_options', {})\<close> is the dictionary of
  the model metadata itself when the key is there, and \<^verbatim>\<open>update\<close> changes it in place:
  the result is the merged dictionary and the model-level value after the statement.
\<close>

definition merge_browser_options ::
  "pydict option \<Rightarrow> pydict option \<Rightarrow> pydict \<times> pydict option"
where
  "merge_browser_options model_options cube_options =
     (let browser_options = (case model_options of None \<Rightarrow> [] | Some d \<Rightarrow> d);
          browser_options' =
            (case cube_options of
               Some (kv # kvs) \<Rightarrow> dict_update browser_options (kv # kvs)
             | _ \<Rightarrow> browser_options)
      in (browser_options',
          case model_options of None \<Rightarrow> None | Some d \<Rightarrow> Some browser_options'))"

text \<open>
  \<^verbatim>\<open>DefaultModelProvider.cube\<close>, up to the call of the constructor: the result is the
  exception raised or the arguments of that call, with the provider as the call leaves
  it. The browser options are merged before the joins, so the provider is changed even
  when the join merge raises.
\<close>

definition provider_cube :: "provider \<Rightarrow> string \<Rightarrow> (error + cube_call) \<times> provider" where
  "provider_cube p name =
     (case map_of (prov_cubes_metadata p) name of
        None \<Rightarrow> (Inl ModelError, p)
      | Some metadata \<Rightarrow>
          (case merge_mappings (mm_mappings (prov_metadata p)) (cmd_mappings metadata) of
             Inl e \<Rightarrow> (Inl e, p)
           | Inr mappings \<Rightarrow>
               (let datastore =
                      (if \<not> json_true (cmd_datastore metadata)
                       then mm_datastore (prov_metadata p) else cmd_datastore metadata);
                    (browser_options, model_options') =
                      merge_browser_options (mm_browser_options (prov_metadata p))
                        (cmd_browser_options metadata);
                    p' = p\<lparr>prov_metadata :=
                             (prov_metadata p)\<lparr>mm_browser_options := model_options'\<rparr>\<rparr>
                in case merge_joins (cmd_joins metadata) (mm_joins (prov_metadata p)) of
                     Inl e \<Rightarrow> (Inl e, p')
                   | Inr joins \<Rightarrow>
                       (Inr \<lparr> cc_linked_dimensions =
                                 (case cmd_dimensions metadata of
                                    None \<Rightarrow> JList [] | Some ds \<Rightarrow> ds),
                               cc_mappings = mappings, cc_joins = joins,
                               cc_datastore = datastore,
                               cc_browser_options = browser_options,
                               cc_other = cmd_other metadata \<rparr>, p'))))"

section \<open>Creating dimensions\<close>






definition Hierarchy_init ::
  "string \<Rightarrow> level_ref list \<Rightarrow> string option \<Rightarrow> json option \<Rightarrow> hierarchy"
where
  "Hierarchy_init name levels label info =
     \<lparr> hier_name = name, hier_label = label,
       hier_info = (case info of None \<Rightarrow> JDict []
                    | Some i \<Rightarrow> if json_true i then i else JDict []),
       hier_level_refs = levels, hier_levels = None, hier_dimension = None \<rparr>"














text \<open>
  \<^verbatim>\<open>Dimension._set_levels\<close>. The dictionary \<^verbatim>\<open>_attributes\<close> keeps, for every attribute
  name, the last attribute of that name in the order of the levels; these attributes get
  the dimension as their owner, and an attribute whose name comes again later keeps the
  owner it had.
\<close>

fun claim_attributes :: "addr \<Rightarrow> string list \<Rightarrow> attribute list \<Rightarrow> attribute list" where
  "claim_attributes self later [] = []"
| "claim_attributes self later (a # as) =
     (if attr_name a \<in> set (map attr_name as) \<union> set later then a
      else a\<lparr>attr_dimension := Some self\<rparr>)
     # claim_attributes self later as"

fun claim_levels :: "addr \<Rightarrow> addr list \<Rightarrow> (addr \<Rightarrow> level) \<Rightarrow> (addr \<Rightarrow> level)" where
  "claim_levels self [] heap = heap"
| "claim_levels self (a # as) heap =
     (let later = concat (map (\<lambda>b. map attr_name (level_attributes (heap b))) as);
          l = heap a
      in claim_levels self as
           (heap(a := l\<lparr>level_attributes :=
                          claim_attributes self later (level_attributes l)\<rparr>)))"

text \<open>
  \<^verbatim>\<open>Dimension.__init__\<close> for a list of level objects: the new dimension gets the next
  address. Without hierarchies there is one, \<^verbatim>\<open>default\<close>, over all levels; every
  hierarchy gets the dimension as its owner.
\<close>

definition Dimension_init ::
  "store \<Rightarrow> string \<Rightarrow> addr list \<Rightarrow> hierarchy list option \<Rightarrow> string option \<Rightarrow> string option
   \<Rightarrow> string option \<Rightarrow> json \<Rightarrow> error + (addr \<times> store)"
where
  "Dimension_init st name levels hierarchies default_hierarchy_name label description info =
     (if levels = [] then Inl ModelError
      else
        (let self = next_addr st;
             levels_dict =
               fold (\<lambda>a acc. od_set acc (level_name (level_heap st a)) a) levels [];
             heap' = claim_levels self (map snd levels_dict) (level_heap st);
             hiers =
               (case hierarchies of
                  Some (h # hs) \<Rightarrow>
                    fold (\<lambda>hier acc. od_set acc (hier_name hier) hier) (h # hs) []
                | _ \<Rightarrow>
                    [(''default'',
                      Hierarchy_init ''default'' (map LevelObj (map snd levels_dict))
                        None None)]);
             d = \<lparr> dim_name = name, dim_label = label, dim_description = description,
                   dim_info = json_or info (JDict []),
                   dim_levels = levels_dict,
                   dim_hierarchies =
                     map (\<lambda>(n, hier). (n, hier\<lparr>hier_dimension := Some self\<rparr>)) hiers,
                   dim_flat_hierarchy = None,
                   dim_default_hierarchy_name = default_hierarchy_name \<rparr>
         in Inr (self,
                 st\<lparr> level_heap := heap', dim_heap := (dim_heap st)(self := d),
                     next_addr := Suc self \<rparr>)))"








text \<open>
  What the constructors leave of a dimension: \<^verbatim>\<open>Dimension.__init__\<close> always fills the
  \<^verbatim>\<open>hierarchies\<close> dictionary, and \<^verbatim>\<open>Level.__init__\<close> always sets the key of the level.
\<close>

definition dimension_constructed :: "store \<Rightarrow> addr \<Rightarrow> bool" where
  "dimension_constructed st a \<longleftrightarrow>
     dim_hierarchies (dim_heap st a) \<noteq> []
     \<and> (\<forall>(k, la) \<in> set (dim_levels (dim_heap st a)). level_key (level_heap st la) \<noteq> None)"


section \<open>Example objects\<close>

text \<open>
  A level with one attribute of its own name, as \<^verbatim>\<open>Level(name=n, attributes=[n])\<close>
  builds it, once the dimension at \<open>da\<close> has claimed the attribute.
\<close>

definition example_level :: "string \<Rightarrow> addr \<Rightarrow> level" where
  "example_level n da =
     \<lparr> level_name = n, level_dimension = None, level_label = None, level_info = JDict [],
       level_attributes =
         [\<lparr> attr_name = n, attr_label = None, attr_locales = [], attr_order = None,
            attr_description = None, attr_dimension = Some da, attr_aggregations = None,
            attr_info = JDict [], attr_format = None \<rparr>],
       level_key = Some n, level_label_attribute = Some n, level_order_attribute = Some n,
       level_order = None \<rparr>"

text \<open>
  The dimension \<^verbatim>\<open>date\<close> with the levels year, month and day and the hierarchy that
  \<^verbatim>\<open>Dimension.__init__\<close> makes of them: the dimension is at address 0, the levels at 1, 2
  and 3.
\<close>

definition date_hierarchy :: hierarchy where
  "date_hierarchy =
     \<lparr> hier_name = ''default'', hier_label = None, hier_info = JDict [],
       hier_level_refs = [LevelObj 1, LevelObj 2, LevelObj 3],
       hier_levels = None, hier_dimension = Some 0 \<rparr>"

definition date_dimension :: dimension where
  "date_dimension =
     \<lparr> dim_name = ''date'', dim_label = None, dim_description = None, dim_info = JDict [],
       dim_levels = [(''year'', 1), (''month'', 2), (''day'', 3)],
       dim_hierarchies = [(''default'', date_hierarchy)],
       dim_flat_hierarchy = None, dim_default_hierarchy_name = None \<rparr>"

definition date_store :: store where
  "date_store =
     \<lparr> level_heap = (\<lambda>a. if a = 1 then example_level ''year'' 0
                          else if a = 2 then example_level ''month'' 0
                          else example_level ''day'' 0),
       dim_heap = (\<lambda>a. date_dimension),
       next_addr = 4 \<rparr>"

text \<open>
  A dimension \<^verbatim>\<open>product\<close> with one level, whose \<^verbatim>\<open>hierarchies\<close> dictionary has been
  emptied after construction: the state for which \<^verbatim>\<open>_default_hierarchy\<close> builds the flat
  hierarchy and \<^verbatim>\<open>validate\<close> reports a \<^verbatim>\<open>'default'\<close> entry. The dimension is at address
  0, the level at 1.
\<close>

definition product_dimension :: dimension where
  "product_dimension =
     \<lparr> dim_name = ''product'', dim_label = None, dim_description = None,
       dim_info = JDict [], dim_levels = [(''product'', 1)], dim_hierarchies = [],
       dim_flat_hierarchy = None, dim_default_hierarchy_name = None \<rparr>"

definition product_store :: store where
  "product_store =
     \<lparr> level_heap = (\<lambda>a. example_level ''product'' 0),
       dim_heap = (\<lambda>a. product_dimension),
       next_addr = 2 \<rparr>"

text \<open>The arguments of \<^verbatim>\<open>Cube(name)\<close> and of \<^verbatim>\<open>Model()\<close>, everything else at its default.\<close>

definition default_cube_args :: "string \<Rightarrow> cube_args" where
  "default_cube_args n =
     \<lparr> ca_name = n, ca_dimensions = None, ca_measures = None, ca_label = None,
       ca_details = None, ca_mappings = JNull, ca_joins = JNull, ca_fact = JNull,
       ca_key = JNull, ca_description = None, ca_browser_options = JNull, ca_info = JNull,
       ca_linked_dimensions = JNull, ca_locale = None, ca_category = JNull,
       ca_datastore = JNull, ca_options = [] \<rparr>"

definition empty_model :: model where
  "empty_model =
     \<lparr> model_name = None, model_label = None, model_description = None,
       model_locale = None, model_info = JDict [], model_mappings = JNull,
       model_dimensions = [], model_cubes = [] \<rparr>"

text \<open>The cube \<^verbatim>\<open>Cube("sales", dimensions=[product])\<close>.\<close>

definition product_cube :: cube where
  "product_cube =
     \<lparr> cube_name = ''sales'', cube_locale = None, cube_label = None,
       cube_description = None, cube_info = JDict [], cube_category = JNull,
       cube_measures =
         [\<lparr> attr_name = ''record'', attr_label = Some ''Count'', attr_locales = [],
            attr_order = None, attr_description = None, attr_dimension = None,
            attr_aggregations = Some [''count'', ''sma''], attr_info = JDict [],
            attr_format = None \<rparr>],
       cube_details = [], cube_mappings = JNull, cube_fact = JNull, cube_joins = JNull,
       cube_key = JNull, cube_browser_options = JDict [], cube_datastore = JNull,
       cube_browser = JNull, cube_linked_dimensions = JList [],
       cube_dimensions = [(''product'', 0)] \<rparr>"

text \<open>
  A model is keyed when every registered dimension is stored under its own name, each
  name once: the state that \<^verbatim>\<open>add_dimension\<close> maintains.
\<close>

definition model_keyed :: "store \<Rightarrow> model \<Rightarrow> bool" where
  "model_keyed st m \<longleftrightarrow>
     distinct (map fst (model_dimensions m))
     \<and> (\<forall>(k, a) \<in> set (model_dimensions m). k = dim_name (dim_heap st a))"

text \<open>The metadata of a cube that has a name and nothing else.\<close>

definition plain_cube_metadata :: "string \<Rightarrow> cube_metadata" where
  "plain_cube_metadata n =
     \<lparr> cmd_mappings = None, cmd_joins = None, cmd_datastore = JNull,
       cmd_browser_options = None, cmd_dimensions = None,
       cmd_other = [(''name'', JStr n)] \<rparr>"

text \<open>
  A provider for the model metadata
  \<^verbatim>\<open>{"browser_options": {"limit": 10}, "cubes": [{"name": "sales", "browser_options":
  {"include_summary": false}}, {"name": "stock"}]}\<close>.
\<close>

definition shop_metadata :: model_metadata where
  "shop_metadata =
     \<lparr> mm_mappings = None, mm_joins = None, mm_datastore = JNull,
       mm_browser_options = Some [(''limit'', JInt 10)] \<rparr>"

definition shop_provider :: provider where
  "shop_provider =
     \<lparr> prov_metadata = shop_metadata,
       prov_cubes_metadata =
         [(''sales'', (plain_cube_metadata ''sales'')
              \<lparr>cmd_browser_options := Some [(''include_summary'', JBool False)]\<rparr>),
          (''stock'', plain_cube_metadata ''stock'')] \<rparr>"

text \<open>
  A provider whose model has the join \<^verbatim>\<open>dates\<close> and whose cube \<^verbatim>\<open>sales\<close> uses it twice,
  under the aliases \<^verbatim>\<open>order_date\<close> and \<^verbatim>\<open>ship_date\<close>.
\<close>

definition dates_join :: pydict where
  "dates_join =
     [(''name'', JStr ''dates''), (''master'', JStr ''sales.date_id''),
      (''detail'', JStr ''dates.id'')]"

definition joins_provider :: provider where
  "joins_provider =
     \<lparr> prov_metadata =
         \<lparr> mm_mappings = None, mm_joins = Some [dates_join], mm_datastore = JNull,
           mm_browser_options = None \<rparr>,
       prov_cubes_metadata =
         [(''sales'', (plain_cube_metadata ''sales'')
              \<lparr>cmd_joins := Some [[(''name'', JStr ''dates''), (''alias'', JStr ''order_date'')],
                                 [(''name'', JStr ''dates''), (''alias'', JStr ''ship_date'')]]\<rparr>)] \<rparr>"

text \<open>
  For the statements about the join merge: the key under which a join is looked up, and
  a cube-level join laid over the model-level join of its name, or over nothing.
\<close>

definition join_key :: "pydict \<Rightarrow> json" where
  "join_key j = py_key (dict_get j ''name'')"

definition merged_join :: "(json \<times> pydict) list \<Rightarrow> pydict \<Rightarrow> pydict" where
  "merged_join join_map j =
     (case map_of join_map (join_key j) of
        None \<Rightarrow> dict_update [] j
      | Some model_join \<Rightarrow> dict_update model_join j)"

text \<open>
  The store of \<^verbatim>\<open>date\<close> after \<^verbatim>\<open>create_dimension({"name": "product"}, {}, "product")\<close>:
  the level \<^verbatim>\<open>product\<close> is at address 4 and the dimension at 5, with the hierarchy
  \<^verbatim>\<open>default\<close> that the constructor makes of its level.
\<close>

definition catalog_dimension :: dimension where
  "catalog_dimension =
     \<lparr> dim_name = ''product'', dim_label = None, dim_description = None,
       dim_info = JDict [], dim_levels = [(''product'', 4)],
       dim_hierarchies =
         [(''default'',
           \<lparr> hier_name = ''default'', hier_label = None, hier_info = JDict [],
             hier_level_refs = [LevelObj 4], hier_levels = None,
             hier_dimension = Some 5 \<rparr>)],
       dim_flat_hierarchy = None, dim_default_hierarchy_name = None \<rparr>"

definition catalog_store :: store where
  "catalog_store =
     \<lparr> level_heap = (\<lambda>a. if a = 1 then example_level ''year'' 0
                          else if a = 2 then example_level ''month'' 0
                          else if a = 4 then example_level ''product'' 5
                          else example_level ''day'' 0),
       dim_heap = (\<lambda>a. if a = 5 then catalog_dimension else date_dimension),
       next_addr = 6 \<rparr>"

text \<open>
  The same store after a second dimension named \<^verbatim>\<open>product\<close> has been created, from the
  metadata \<^verbatim>\<open>{"name": "product", "levels": ["product", "category"]}\<close>: its levels are at
  6 and 7 and the dimension at 8.
\<close>

definition twin_dimension :: dimension where
  "twin_dimension =
     \<lparr> dim_name = ''product'', dim_label = None, dim_description = None,
       dim_info = JDict [], dim_levels = [(''product'', 6), (''category'', 7)],
       dim_hierarchies =
         [(''default'',
           \<lparr> hier_name = ''default'', hier_label = None, hier_info = JDict [],
             hier_level_refs = [LevelObj 6, LevelObj 7], hier_levels = None,
             hier_dimension = Some 8 \<rparr>)],
       dim_flat_hierarchy = None, dim_default_hierarchy_name = None \<rparr>"

definition twin_store :: store where
  "twin_store =
     \<lparr> level_heap = (\<lambda>a. if a = 1 then example_level ''year'' 0
                          else if a = 2 then example_level ''month'' 0
                          else if a = 4 then example_level ''product'' 5
                          else if a = 6 then example_level ''product'' 8
                          else if a = 7 then example_level ''category'' 8
                          else example_level ''day'' 0),
       dim_heap = (\<lambda>a. if a = 5 then catalog_dimension
                        else if a = 8 then twin_dimension else date_dimension),
       next_addr = 9 \<rparr>"

text \<open>
  The cubes \<^verbatim>\<open>Cube("visits", dimensions=[date])\<close>,
  \<^verbatim>\<open>Cube("orders", dimensions=[date, product])\<close> and \<^verbatim>\<open>Cube("stock", dimensions=[twin])\<close>,
  where \<^verbatim>\<open>twin\<close> is the second dimension named \<^verbatim>\<open>product\<close>, and the models that adding
  the first, and then the second, to an empty model gives.
\<close>

definition visits_cube :: cube where
  "visits_cube = product_cube\<lparr>cube_name := ''visits'', cube_dimensions := [(''date'', 0)]\<rparr>"

definition orders_cube :: cube where
  "orders_cube =
     product_cube\<lparr>cube_name := ''orders'', cube_dimensions := [(''date'', 0), (''product'', 5)]\<rparr>"

definition stock_cube :: cube where
  "stock_cube = product_cube\<lparr>cube_name := ''stock'', cube_dimensions := [(''product'', 8)]\<rparr>"

definition visits_model :: model where
  "visits_model =
     empty_model\<lparr> model_dimensions := [(''date'', 0)],
                   model_cubes := [(''visits'', visits_cube)] \<rparr>"

definition orders_model :: model where
  "orders_model =
     empty_model\<lparr> model_dimensions := [(''date'', 0), (''product'', 5)],
                   model_cubes := [(''visits'', visits_cube), (''orders'', orders_cube)] \<rparr>"


section \<open>Properties of aggregate references\<close>

lemma rfind_range: "- 1 \<le> rfind s c \<and> rfind s c < int (length s)"
  by (induction s) (auto simp: Let_def)

lemma rfind_absent: "rfind s c = - 1 \<longleftrightarrow> c \<notin> set s"
proof (induction s)
  case Nil
  show ?case by simp
next
  case (Cons x xs)
  have "- 1 \<le> rfind xs c" using rfind_range [of xs c] by simp
  with Cons show ?case by (auto simp: Let_def)
qed

lemma rfind_last_occurrence:
  assumes "c \<notin> set a"
  shows "rfind (m @ c # a) c = int (length m)"
proof (induction m)
  case Nil
  from assms have "rfind a c = - 1" by (simp add: rfind_absent)
  then show ?case by simp
next
  case (Cons x xs)
  then show ?case by (simp add: Let_def)
qed

lemma rfind_inside:
  assumes "c \<in> set a"
  shows "int (length m) < rfind (m @ c # a) c"
proof (induction m)
  case Nil
  from assms have "rfind a c \<noteq> - 1" by (simp add: rfind_absent)
  moreover have "- 1 \<le> rfind a c" using rfind_range [of a c] by simp
  ultimately show ?case by (simp add: Let_def)
next
  case (Cons x xs)
  then show ?case by (auto simp: Let_def)
qed

text \<open>
  Claim C6, as stated: the round trip holds for all non-empty \<open>m\<close> and \<open>a\<close>. It fails
  for an aggregate name that holds an underscore: the reference is cut inside it.
\<close>

theorem split_aggregate_ref_roundtrip_counterexample:
  "split_aggregate_ref (aggregate_ref ''m'' ''a_b'') = Inr (''m_a'', ''b'')
   \<and> split_aggregate_ref (aggregate_ref ''m'' ''a_b'') \<noteq> Inr (''m'', ''a_b'')"
  by (simp add: split_aggregate_ref_def aggregate_ref_def Let_def)

text \<open>
  Claim C6, amended: for every measure name \<open>m\<close>, the round trip
  \<open>split_aggregate_ref (aggregate_ref m a) = (m, a)\<close> holds exactly when the
  aggregate name \<open>a\<close> is non-empty and holds no underscore; and a reference
  without underscore raises \<^verbatim>\<open>ArgumentError\<close>.
\<close>

theorem split_aggregate_ref_roundtrip:
  "(split_aggregate_ref (aggregate_ref m a) = Inr (m, a)
      \<longleftrightarrow> a \<noteq> [] \<and> CHR ''_'' \<notin> set a)
   \<and> (CHR ''_'' \<notin> set s \<longrightarrow> split_aggregate_ref s = Inl ArgumentError)"
proof (intro conjI impI iffI)
  assume "CHR ''_'' \<notin> set s"
  then have "rfind s CHR ''_'' = - 1" by (simp add: rfind_absent)
  then show "split_aggregate_ref s = Inl ArgumentError"
    by (simp add: split_aggregate_ref_def)
next
  assume ok: "a \<noteq> [] \<and> CHR ''_'' \<notin> set a"
  then have r: "rfind (m @ CHR ''_'' # a) CHR ''_'' = int (length m)"
    by (simp add: rfind_last_occurrence)
  have n: "nat (int (length m) + 1) = Suc (length m)" by simp
  from ok have "0 < length a" by simp
  with r show "split_aggregate_ref (aggregate_ref m a) = Inr (m, a)"
    by (simp add: split_aggregate_ref_def aggregate_ref_def Let_def n)
next
  assume rt: "split_aggregate_ref (aggregate_ref m a) = Inr (m, a)"
  show "a \<noteq> []"
  proof
    assume "a = []"
    then have "rfind (m @ CHR ''_'' # a) CHR ''_'' = int (length m)"
      by (simp add: rfind_last_occurrence)
    with \<open>a = []\<close> rt show False
      by (simp add: split_aggregate_ref_def aggregate_ref_def Let_def)
  qed
  show "CHR ''_'' \<notin> set a"
  proof
    assume "CHR ''_'' \<in> set a"
    then have lt: "int (length m) < rfind (m @ CHR ''_'' # a) CHR ''_''"
      by (rule rfind_inside)
    from rt have "take (nat (rfind (m @ CHR ''_'' # a) CHR ''_'')) (m @ CHR ''_'' # a) = m"
      by (simp add: split_aggregate_ref_def aggregate_ref_def Let_def split: if_splits)
    then have "length (take (nat (rfind (m @ CHR ''_'' # a) CHR ''_'')) (m @ CHR ''_'' # a))
               = length m" by simp
    with lt show False by (simp add: min_def split: if_splits)
  qed
qed

theorem split_aggregate_ref_roundtrip_witness:
  "split_aggregate_ref (aggregate_ref ''amount'' ''sum'') = Inr (''amount'', ''sum'')
   \<and> split_aggregate_ref ''amount'' = Inl ArgumentError"
  using split_aggregate_ref_roundtrip [of "''amount''" "''sum''" "''amount''"]
  by simp

section \<open>Properties of hierarchies\<close>

lemmas hier_eval = level_index_def Hierarchy_levels_dict_def Hierarchy_levels_def
  Hierarchy_set_levels_def Dimension_level_def level_str_def Hierarchy_truth_def Let_def

lemmas date_eval = date_hierarchy_def date_dimension_def date_store_def example_level_def

lemmas product_eval = product_dimension_def product_store_def example_level_def

lemmas cat_eval = catalog_store_def catalog_dimension_def twin_store_def twin_dimension_def
  date_dimension_def date_hierarchy_def example_level_def

text \<open>
  Claim C10: for every hierarchy, \<^verbatim>\<open>path_is_base(None)\<close> returns \<^verbatim>\<open>False\<close>; a path that is
  not \<^verbatim>\<open>None\<close> is a base path exactly when its length is the number of levels of the
  hierarchy, the levels being what the property \<^verbatim>\<open>levels\<close> returns.
\<close>

theorem path_is_base_None:
  "path_is_base st h (None :: 'a list option) = Inr False
   \<and> (Hierarchy_levels st h = Inr ls
        \<longrightarrow> path_is_base st h (Some (p :: 'a list)) = Inr (length p = length ls))"
  by (simp add: path_is_base_def)

theorem path_is_base_None_witness:
  "Hierarchy_levels date_store date_hierarchy = Inr [1, 2, 3]
   \<and> path_is_base date_store date_hierarchy (Some [''2020'', ''03'', ''15'']) = Inr True
   \<and> path_is_base date_store date_hierarchy (Some [''2020'', ''03'']) = Inr False"
proof -
  have l: "Hierarchy_levels date_store date_hierarchy = Inr [1, 2, 3]"
    by (simp add: hier_eval date_eval)
  have a: "path_is_base date_store date_hierarchy (Some [''2020'', ''03'', ''15'']) = Inr True"
    using l path_is_base_None [of date_store date_hierarchy "[1, 2, 3]" "[''2020'', ''03'', ''15'']"]
    by simp
  have b: "path_is_base date_store date_hierarchy (Some [''2020'', ''03'']) = Inr False"
    using l path_is_base_None [of date_store date_hierarchy "[1, 2, 3]" "[''2020'', ''03'']"]
    by simp
  from l a b show ?thesis by blast
qed

text \<open>
  Claim C3, as stated: in the hierarchy year, month, day, rolling the path
  \<^verbatim>\<open>["2020","03","15"]\<close> up to the level \<^verbatim>\<open>month\<close> gives \<^verbatim>\<open>["2020"]\<close>. The code keeps the
  element of the named level: the result is \<^verbatim>\<open>["2020","03"]\<close>.
\<close>

theorem rollup_month_counterexample:
  "rollup date_store date_hierarchy [''2020'', ''03'', ''15''] (Some (LevelName ''month''))
     = Inr [''2020'', ''03'']
   \<and> rollup date_store date_hierarchy [''2020'', ''03'', ''15''] (Some (LevelName ''month''))
     \<noteq> Inr [''2020'']"
  by (simp add: rollup_def hier_eval date_eval)

text \<open>
  Claim C3, amended: in the hierarchy year, month, day, \<^verbatim>\<open>rollup\<close> of
  \<^verbatim>\<open>["2020","03","15"]\<close> without level gives \<^verbatim>\<open>["2020","03"]\<close>, and with the level
  \<^verbatim>\<open>month\<close> it gives \<^verbatim>\<open>["2020","03"]\<close> as well: the path is cut after the element of the
  named level. In every hierarchy, \<^verbatim>\<open>rollup([])\<close> without level gives \<^verbatim>\<open>[]\<close>; with a
  level of index \<open>i\<close>, a path shorter than \<open>i + 1\<close> raises \<^verbatim>\<open>HierarchyError\<close> and any
  other path is cut to its first \<open>i + 1\<close> elements.
\<close>

theorem rollup_amended:
  "rollup date_store date_hierarchy [''2020'', ''03'', ''15''] None = Inr [''2020'', ''03'']
   \<and> rollup date_store date_hierarchy [''2020'', ''03'', ''15''] (Some (LevelName ''month''))
       = Inr [''2020'', ''03'']
   \<and> rollup st h ([] :: 'a list) None = Inr []
   \<and> (level_arg_true lvl \<and> level_index st h (the lvl) = Inr i \<and> length (path :: 'a list) < i + 1
        \<longrightarrow> rollup st h path lvl = Inl HierarchyError)
   \<and> (level_arg_true lvl \<and> level_index st h (the lvl) = Inr i \<and> i + 1 \<le> length path
        \<longrightarrow> rollup st h path lvl = Inr (take (i + 1) path))"
  by (simp add: rollup_def hier_eval date_eval)

theorem rollup_amended_witness:
  "level_index date_store date_hierarchy (LevelName ''day'') = Inr 2
   \<and> rollup date_store date_hierarchy [''2020'', ''03''] (Some (LevelName ''day''))
       = Inl HierarchyError
   \<and> rollup date_store date_hierarchy [''2020'', ''03'', ''15''] (Some (LevelName ''day''))
       = Inr [''2020'', ''03'', ''15'']"
proof -
  have i: "level_index date_store date_hierarchy (LevelName ''day'') = Inr 2"
    by (simp add: hier_eval date_eval)
  have a: "rollup date_store date_hierarchy [''2020'', ''03''] (Some (LevelName ''day''))
             = Inl HierarchyError"
    using i rollup_amended [of date_store date_hierarchy "Some (LevelName ''day'')" 2
                               "[''2020'', ''03'']"]
    by simp
  have b: "rollup date_store date_hierarchy [''2020'', ''03'', ''15''] (Some (LevelName ''day''))
             = Inr [''2020'', ''03'', ''15'']"
    using i rollup_amended [of date_store date_hierarchy "Some (LevelName ''day'')" 2
                               "[''2020'', ''03'', ''15'']"]
    by simp
  from i a b show ?thesis by blast
qed

section \<open>Properties of ordered dictionaries\<close>

lemma od_set_fresh: "k \<notin> set (map fst kvs) \<Longrightarrow> od_set kvs k v = kvs @ [(k, v)]"
  by (induction kvs) auto

lemma od_set_nonempty: "od_set kvs k v \<noteq> []"
  by (cases kvs) (auto split: if_splits)

lemma fold_od_set_nonempty:
  "xs \<noteq> [] \<or> acc \<noteq> [] \<Longrightarrow> fold (\<lambda>x acc. od_set acc (f x) x) xs acc \<noteq> []"
  by (induction xs arbitrary: acc) (simp_all add: od_set_nonempty)



lemma od_set_entries: "set (od_set kvs k v) \<subseteq> insert (k, v) (set kvs)"
  by (induction kvs) (auto split: if_splits)




lemma od_set_values: "snd ` set (od_set kvs k v) \<subseteq> insert v (snd ` set kvs)"
  using od_set_entries [of kvs k v] by force

lemma fold_od_set_values:
  "snd ` set (fold (\<lambda>a acc. od_set acc (f a) a) as acc) \<subseteq> snd ` set acc \<union> set as"
proof (induction as arbitrary: acc)
  case Nil
  then show ?case by simp
next
  case (Cons a as)
  have "snd ` set (fold (\<lambda>a acc. od_set acc (f a) a) as (od_set acc (f a) a))
        \<subseteq> snd ` set (od_set acc (f a) a) \<union> set as" by (rule Cons.IH)
  moreover have "snd ` set (od_set acc (f a) a) \<subseteq> insert a (snd ` set acc)"
    by (rule od_set_values)
  ultimately have "snd ` set (fold (\<lambda>a acc. od_set acc (f a) a) as (od_set acc (f a) a))
        \<subseteq> insert a (snd ` set acc) \<union> set as" by blast
  then show ?case by simp
qed

lemma map_of_od_set: "map_of (od_set kvs k v) k = Some v"
  by (induction kvs) auto


section \<open>Properties of the default hierarchy\<close>






lemma default_hierarchy_no_hierarchy:
  assumes "dim_hierarchies d = []" and "length (dim_levels d) \<noteq> 1"
  shows "default_hierarchy st d = Inl ModelError"
  using assms
  by (simp add: default_hierarchy_def default_hierarchy_fallback_def)

lemma default_hierarchy_flat:
  assumes "dim_hierarchies d = []" and "length (dim_levels d) = 1"
    and "dim_flat_hierarchy d = None"
  shows "default_hierarchy st d = Inl NameError"
  using assms
  by (simp add: default_hierarchy_def default_hierarchy_fallback_def)



lemma claim_levels_key: "level_key (claim_levels self as heap c) = level_key (heap c)"
  by (induction as arbitrary: heap) (simp_all add: Let_def)

lemma Dimension_init_result:
  assumes "Dimension_init st name levels hierarchies dhn label description info = Inr (a, st')"
  shows "a = next_addr st" and "levels \<noteq> []"
    and "dim_levels (dim_heap st' a)
           = fold (\<lambda>a acc. od_set acc (level_name (level_heap st a)) a) levels []"
    and "dim_hierarchies (dim_heap st' a)
           = map (\<lambda>(n, hier). (n, hier\<lparr>hier_dimension := Some a\<rparr>))
               (case hierarchies of
                  Some (h # hs) \<Rightarrow> fold (\<lambda>hier acc. od_set acc (hier_name hier) hier) (h # hs) []
                | _ \<Rightarrow> [(''default'',
                          Hierarchy_init ''default''
                            (map LevelObj (map snd
                               (fold (\<lambda>a acc. od_set acc (level_name (level_heap st a)) a)
                                  levels []))) None None)])"
    and "dim_default_hierarchy_name (dim_heap st' a) = dhn"
    and "dim_flat_hierarchy (dim_heap st' a) = None"
    and "level_heap st'
           = claim_levels a (map snd (dim_levels (dim_heap st' a))) (level_heap st)"
proof -
  from assms show ne: "levels \<noteq> []" by (auto simp: Dimension_init_def)
  with assms show a: "a = next_addr st" by (auto simp: Dimension_init_def Let_def)
  from assms ne have st': "st' = snd (projr (Dimension_init st name levels hierarchies dhn label description info))"
    by simp
  from ne a show "dim_levels (dim_heap st' a)
           = fold (\<lambda>a acc. od_set acc (level_name (level_heap st a)) a) levels []"
    unfolding st' by (simp add: Dimension_init_def Let_def)
  from ne a show "dim_default_hierarchy_name (dim_heap st' a) = dhn"
    unfolding st' by (simp add: Dimension_init_def Let_def)
  from ne a show "dim_flat_hierarchy (dim_heap st' a) = None"
    unfolding st' by (simp add: Dimension_init_def Let_def)
  from ne a show "level_heap st'
           = claim_levels a (map snd (dim_levels (dim_heap st' a))) (level_heap st)"
    unfolding st' by (simp add: Dimension_init_def Let_def)
  from ne a show "dim_hierarchies (dim_heap st' a)
           = map (\<lambda>(n, hier). (n, hier\<lparr>hier_dimension := Some a\<rparr>))
               (case hierarchies of
                  Some (h # hs) \<Rightarrow> fold (\<lambda>hier acc. od_set acc (hier_name hier) hier) (h # hs) []
                | _ \<Rightarrow> [(''default'',
                          Hierarchy_init ''default''
                            (map LevelObj (map snd
                               (fold (\<lambda>a acc. od_set acc (level_name (level_heap st a)) a)
                                  levels []))) None None)])"
    unfolding st' by (simp add: Dimension_init_def Let_def)
qed

lemma Dimension_init_hierarchies:
  assumes "Dimension_init st name levels hierarchies dhn label description info = Inr (a, st')"
  shows "dim_hierarchies (dim_heap st' a) \<noteq> []"
proof (cases hierarchies)
  case None
  with Dimension_init_result(4) [OF assms] show ?thesis by simp
next
  case (Some hs)
  show ?thesis
  proof (cases hs)
    case Nil
    with Some Dimension_init_result(4) [OF assms] show ?thesis by simp
  next
    case (Cons h hs')
    have "fold (\<lambda>hier acc. od_set acc (hier_name hier) hier) (h # hs') [] \<noteq> []"
      by (rule fold_od_set_nonempty) simp
    with Some Cons Dimension_init_result(4) [OF assms] show ?thesis by simp
  qed
qed








section \<open>Properties of validation\<close>

lemma product_cube_built:
  "Cube_init product_store ((default_cube_args ''sales'')\<lparr>ca_dimensions := Some [0]\<rparr>)
     = Inr product_cube"
  by (simp add: Cube_init_def default_cube_args_def json_or_def dict_get_def
      RECORD_COUNT_MEASURE_def coalesce_attribute_def Attribute_init_def
      Cube_add_dimension_def product_eval product_cube_def Let_def)

text \<open>
  The decision of \<^verbatim>\<open>is_valid\<close> on a list of results: without \<^verbatim>\<open>strict\<close> the list has to
  be free of errors, with \<^verbatim>\<open>strict\<close> it has to be empty.
\<close>

lemma is_valid_results_lenient:
  "is_valid_results False results \<longleftrightarrow> (\<forall>r \<in> set results. fst r \<noteq> ''error'')"
  by (auto simp: is_valid_results_def)

lemma is_valid_results_strict: "is_valid_results True results \<longleftrightarrow> results = []"
  by (simp add: is_valid_results_def)











lemma Level_init_key:
  "Level_init n specs dim key oa ord la lbl info = Inr l \<Longrightarrow> level_key l \<noteq> None"
  unfolding Level_init_def by (auto split: if_splits sum.splits)

lemma Dimension_init_constructed:
  assumes "Dimension_init st name levels hierarchies dhn label description info = Inr (a, st')"
    and "\<forall>l \<in> set levels. level_key (level_heap st l) \<noteq> None"
  shows "dimension_constructed st' a"
proof -
  note r = Dimension_init_result [OF assms(1)]
  have "level_key (level_heap st' la) \<noteq> None" if "(k, la) \<in> set (dim_levels (dim_heap st' a))"
    for k la
  proof -
    from that have "la \<in> snd ` set (dim_levels (dim_heap st' a))" by force
    with fold_od_set_values [of "\<lambda>a. level_name (level_heap st a)" levels "[]"]
    have "la \<in> set levels" unfolding r(3) by auto
    with assms(2) have "level_key (level_heap st la) \<noteq> None" by simp
    then show ?thesis unfolding r(7) by (simp add: claim_levels_key)
  qed
  with Dimension_init_hierarchies [OF assms(1)] show ?thesis
    by (auto simp: dimension_constructed_def)
qed




section \<open>Properties of cube construction\<close>

lemma attribute_list_length:
  "attribute_list specs dimension = Inr as \<Longrightarrow> length as = length specs"
  by (induction specs arbitrary: as) (auto split: sum.splits)

lemma record_measure_built:
  "attribute_list [AttrDict RECORD_COUNT_MEASURE] None =
     Inr [\<lparr> attr_name = ''record'', attr_label = Some ''Count'', attr_locales = [],
            attr_order = None, attr_description = None, attr_dimension = None,
            attr_aggregations = Some [''count'', ''sma''], attr_info = JDict [],
            attr_format = None \<rparr>]"
  by (simp add: RECORD_COUNT_MEASURE_def coalesce_attribute_def Attribute_init_def)

lemma Cube_init_measures:
  assumes "Cube_init st args = Inr c"
  shows "attribute_list
           (case ca_measures args of
              None \<Rightarrow> [AttrDict RECORD_COUNT_MEASURE]
            | Some [] \<Rightarrow> [AttrDict RECORD_COUNT_MEASURE]
            | Some (m # ms) \<Rightarrow> m # ms) None = Inr (cube_measures c)"
  using assms
  by (auto simp: Cube_init_def Let_def split: sum.splits)

text \<open>
  Claim C8: every cube constructed without measures (\<^verbatim>\<open>None\<close> or an empty list) has
  exactly one measure, named \<^verbatim>\<open>record\<close>, with the aggregations \<^verbatim>\<open>count\<close> and \<^verbatim>\<open>sma\<close>;
  when measures are supplied, the cube's measures are the supplied ones, one for one,
  and nothing is added.
\<close>

theorem Cube_init_default_measure:
  assumes "Cube_init st args = Inr c"
  shows "((ca_measures args = None \<or> ca_measures args = Some [])
            \<longrightarrow> (\<exists>m. cube_measures c = [m] \<and> attr_name m = ''record''
                      \<and> attr_aggregations m = Some [''count'', ''sma'']))
         \<and> (\<forall>ms. ca_measures args = Some ms \<and> ms \<noteq> []
                \<longrightarrow> attribute_list ms None = Inr (cube_measures c)
                    \<and> length (cube_measures c) = length ms)"
proof (intro conjI impI allI)
  assume "ca_measures args = None \<or> ca_measures args = Some []"
  with Cube_init_measures [OF assms]
  have "attribute_list [AttrDict RECORD_COUNT_MEASURE] None = Inr (cube_measures c)"
    by auto
  with record_measure_built
  have "cube_measures c =
     [\<lparr> attr_name = ''record'', attr_label = Some ''Count'', attr_locales = [],
            attr_order = None, attr_description = None, attr_dimension = None,
            attr_aggregations = Some [''count'', ''sma''], attr_info = JDict [],
            attr_format = None \<rparr>]"
    by (simp del: attribute_list.simps)
  then show "\<exists>m. cube_measures c = [m] \<and> attr_name m = ''record''
                \<and> attr_aggregations m = Some [''count'', ''sma'']"
    by simp
next
  fix ms assume a: "ca_measures args = Some ms \<and> ms \<noteq> []"
  with Cube_init_measures [OF assms]
  show "attribute_list ms None = Inr (cube_measures c)"
    by (cases ms) auto
  then show "length (cube_measures c) = length ms"
    by (rule attribute_list_length)
qed


theorem Cube_init_default_measure_witness:
  "Cube_init product_store ((default_cube_args ''sales'')\<lparr>ca_dimensions := Some [0]\<rparr>)
     = Inr product_cube
   \<and> (\<exists>m. cube_measures product_cube = [m] \<and> attr_name m = ''record''
            \<and> attr_aggregations m = Some [''count'', ''sma''])
   \<and> (\<exists>c. Cube_init product_store
               ((default_cube_args ''sales'')\<lparr>ca_measures := Some [AttrName ''amount'']\<rparr>) = Inr c
            \<and> map attr_name (cube_measures c) = [''amount''] \<and> length (cube_measures c) = 1)"
proof -
  have a: "\<exists>m. cube_measures product_cube = [m] \<and> attr_name m = ''record''
            \<and> attr_aggregations m = Some [''count'', ''sma'']"
    using Cube_init_default_measure [OF product_cube_built]
    by (simp add: default_cube_args_def)
  define c where "c = product_cube\<lparr>cube_measures := [\<lparr> attr_name = ''amount'', attr_label = None,
            attr_locales = [], attr_order = None, attr_description = None,
            attr_dimension = None, attr_aggregations = None, attr_info = JDict [],
            attr_format = None \<rparr>], cube_dimensions := []\<rparr>"
  have b: "Cube_init product_store
             ((default_cube_args ''sales'')\<lparr>ca_measures := Some [AttrName ''amount'']\<rparr>) = Inr c"
    by (simp add: Cube_init_def default_cube_args_def json_or_def dict_get_def
        coalesce_attribute_def Attribute_init_def Let_def c_def product_cube_def)
  have l: "length (cube_measures c) = 1"
    using Cube_init_default_measure [OF b] by (simp add: default_cube_args_def)
  have n: "map attr_name (cube_measures c) = [''amount'']" by (simp add: c_def)
  from b n l have "\<exists>c. Cube_init product_store
               ((default_cube_args ''sales'')\<lparr>ca_measures := Some [AttrName ''amount'']\<rparr>) = Inr c
            \<and> map attr_name (cube_measures c) = [''amount''] \<and> length (cube_measures c) = 1"
    by (intro exI [of _ c] conjI)
  with a product_cube_built show ?thesis by (intro conjI)
qed

section \<open>Properties of \<^verbatim>\<open>add_cube\<close>\<close>

lemma add_cube_loop_cubes:
  "model_cubes (snd (add_cube_loop st mine names as m)) = model_cubes m"
proof (induction as arbitrary: m)
  case Nil
  show ?case by simp
next
  case (Cons a as)
  show ?case
  proof (cases "Model_add_dimension st a m")
    case (Inl e)
    then show ?thesis using Cons.IH [of m] by simp
  next
    case (Inr m1)
    then have "model_cubes m1 = model_cubes m"
      by (auto simp: Model_add_dimension_def Let_def split: if_splits)
    with Inr Cons.IH [of m1] Cons.IH [of m] show ?thesis by simp
  qed
qed

lemma add_cube_loop_exact:
  "(add_cube_loop_accepts st mine names as m \<longrightarrow>
      add_cube_loop st mine names as m =
        (None, m\<lparr>model_dimensions := model_dimensions m
                    @ map (\<lambda>a. (dim_name (dim_heap st a), a))
                        (new_dimensions mine as)\<rparr>))
   \<and> (\<not> add_cube_loop_accepts st mine names as m \<longrightarrow>
      fst (add_cube_loop st mine names as m) = Some ModelInconsistencyError)"
proof (induction as arbitrary: m)
  case Nil
  show ?case by (simp add: add_cube_loop_accepts_def new_dimensions_def)
next
  case (Cons a as)
  let ?nm = "\<lambda>a. dim_name (dim_heap st a)"
  show ?case
  proof (cases "a \<in> set mine")
    case True
    then have "add_cube_loop_accepts st mine names (a # as) m = add_cube_loop_accepts st mine names as m"
      by (simp add: add_cube_loop_accepts_def new_dimensions_def)
    with True Cons.IH [of m] show ?thesis by (simp add: new_dimensions_def)
  next
    case new: False
    show ?thesis
    proof (cases "?nm a \<in> set names")
      case True
      with new have "\<not> add_cube_loop_accepts st mine names (a # as) m" by (simp add: add_cube_loop_accepts_def new_dimensions_def)
      with True new show ?thesis by simp
    next
      case fresh: False
      show ?thesis
      proof (cases "?nm a \<in> set (map fst (model_dimensions m))")
        case True
        with new have "\<not> add_cube_loop_accepts st mine names (a # as) m" by (simp add: add_cube_loop_accepts_def new_dimensions_def)
        moreover from True have "Model_add_dimension st a m = Inl ModelInconsistencyError"
          by (simp add: Model_add_dimension_def Let_def)
        ultimately show ?thesis using new fresh by simp
      next
        case False
        let ?m1 = "m\<lparr>model_dimensions := model_dimensions m @ [(?nm a, a)]\<rparr>"
        from False have add: "Model_add_dimension st a m = Inr ?m1"
          by (simp add: Model_add_dimension_def Let_def od_set_fresh)
        have step: "add_cube_loop st mine names (a # as) m = add_cube_loop st mine names as ?m1"
          using new fresh add by simp
        have ok: "add_cube_loop_accepts st mine names (a # as) m = add_cube_loop_accepts st mine names as ?m1"
          using new fresh False by (auto simp: add_cube_loop_accepts_def new_dimensions_def image_iff)
        have res: "?m1\<lparr>model_dimensions := model_dimensions ?m1
                    @ map (\<lambda>a. (?nm a, a)) (new_dimensions mine as)\<rparr>
                 = m\<lparr>model_dimensions := model_dimensions m
                    @ map (\<lambda>a. (?nm a, a)) (new_dimensions mine (a # as))\<rparr>"
          using new by (simp add: new_dimensions_def)
        from Cons.IH [of ?m1] show ?thesis unfolding step ok res .
      qed
    qed
  qed
qed


lemma Model_add_dimension_result:
  assumes "Model_add_dimension st a m = Inr m'"
  shows "model_dimensions m' = model_dimensions m @ [(dim_name (dim_heap st a), a)]
         \<and> model_cubes m' = model_cubes m"
  using assms
  by (auto simp: Model_add_dimension_def Let_def od_set_fresh split: if_splits)

lemma Model_add_dimension_error:
  "Model_add_dimension st a m = Inl e \<Longrightarrow> e = ModelInconsistencyError"
  by (auto simp: Model_add_dimension_def Let_def split: if_splits)

lemma add_cube_loop_success:
  assumes "add_cube_loop st mine names as m = (None, m')"
    and "set mine \<subseteq> set (map snd (model_dimensions m))"
  shows "set (map snd (model_dimensions m')) = set (map snd (model_dimensions m)) \<union> set as
         \<and> model_cubes m' = model_cubes m"
  using assms
proof (induction as arbitrary: m)
  case Nil
  then show ?case by simp
next
  case (Cons a as)
  show ?case
  proof (cases "a \<in> set mine")
    case True
    with Cons.prems have "add_cube_loop st mine names as m = (None, m')" by simp
    from Cons.IH [OF this Cons.prems(2)] True Cons.prems(2) show ?thesis by auto
  next
    case False
    with Cons.prems(1) obtain m1 where
        m1: "Model_add_dimension st a m = Inr m1"
        and rest: "add_cube_loop st mine names as m1 = (None, m')"
      by (auto split: if_splits sum.splits)
    from Model_add_dimension_result [OF m1]
    have d: "model_dimensions m1 = model_dimensions m @ [(dim_name (dim_heap st a), a)]"
      and c: "model_cubes m1 = model_cubes m" by simp_all
    from d Cons.prems(2) have "set mine \<subseteq> set (map snd (model_dimensions m1))" by auto
    from Cons.IH [OF rest this] d c show ?thesis by auto
  qed
qed

lemma add_cube_loop_conflict:
  assumes "a \<in> set as" and "a \<notin> set mine" and "dim_name (dim_heap st a) \<in> set names"
  shows "fst (add_cube_loop st mine names as m) = Some ModelInconsistencyError"
  using assms
proof (induction as arbitrary: m)
  case Nil
  then show ?case by simp
next
  case (Cons b bs)
  show ?case
  proof (cases "b = a")
    case True
    with Cons.prems show ?thesis by simp
  next
    case False
    with Cons.prems have "a \<in> set bs" by simp
    from Cons.IH [OF this Cons.prems(2,3)] show ?thesis
      by (auto split: sum.splits dest: Model_add_dimension_error)
  qed
qed

lemma keyed_same_name:
  assumes "model_keyed st m"
    and "a \<in> set (map snd (model_dimensions m))"
    and "a' \<in> set (map snd (model_dimensions m))"
    and "dim_name (dim_heap st a') = dim_name (dim_heap st a)"
  shows "a' = a"
proof -
  from assms(2) obtain k where k: "(k, a) \<in> set (model_dimensions m)" by auto
  from assms(3) obtain k' where k': "(k', a') \<in> set (model_dimensions m)" by auto
  from assms(1) k k' have "k = dim_name (dim_heap st a)" "k' = dim_name (dim_heap st a')"
    by (auto simp: model_keyed_def)
  with assms(4) have "k' = k" by simp
  from assms(1) have "distinct (map fst (model_dimensions m))" by (simp add: model_keyed_def)
  with k k' \<open>k' = k\<close> show ?thesis by (metis eq_key_imp_eq_value)
qed

text \<open>
  Claim C2: \<^verbatim>\<open>add_cube\<close> succeeds exactly when the dimensions of the cube that are not
  registered as objects have names that no registered dimension has, and no two of them
  the same name. It then registers exactly these dimensions, in the order of the cube,
  leaves the registered ones in place and stores the cube under its name, so that every
  dimension of the cube is registered. In every other case it raises
  \<^verbatim>\<open>ModelInconsistencyError\<close> and does not store the cube; this is the case for a
  dimension of the cube that is not registered as an object while a registered
  dimension has its name, which in a keyed model is the case whenever a registered
  dimension has the same name and another specification.
\<close>

theorem add_cube_registers:
  "(add_cube_accepts st c m \<longrightarrow>
      add_cube st c m =
        (None,
         m\<lparr> model_dimensions :=
               model_dimensions m
               @ map (\<lambda>a. (dim_name (dim_heap st a), a))
                   (new_dimensions (map snd (model_dimensions m)) (map snd (cube_dimensions c))),
             model_cubes := od_set (model_cubes m) (cube_name c) c \<rparr>))
   \<and> (\<not> add_cube_accepts st c m \<longrightarrow>
        fst (add_cube st c m) = Some ModelInconsistencyError
        \<and> model_cubes (snd (add_cube st c m)) = model_cubes m)
   \<and> (fst (add_cube st c m) = None \<longrightarrow>
      set (map snd (cube_dimensions c))
        \<subseteq> set (map snd (model_dimensions (snd (add_cube st c m))))
      \<and> set (map snd (model_dimensions (snd (add_cube st c m))))
          = set (map snd (model_dimensions m)) \<union> set (map snd (cube_dimensions c))
      \<and> map_of (model_cubes (snd (add_cube st c m))) (cube_name c) = Some c)
   \<and> ((\<exists>a \<in> set (map snd (cube_dimensions c)).
          a \<notin> set (map snd (model_dimensions m))
          \<and> (\<exists>a' \<in> set (map snd (model_dimensions m)).
                dim_name (dim_heap st a') = dim_name (dim_heap st a)))
        \<longrightarrow> fst (add_cube st c m) = Some ModelInconsistencyError)
   \<and> (model_keyed st m
        \<and> (\<exists>a \<in> set (map snd (cube_dimensions c)).
             \<exists>a' \<in> set (map snd (model_dimensions m)).
                dim_name (dim_heap st a') = dim_name (dim_heap st a)
                \<and> dim_heap st a' \<noteq> dim_heap st a)
        \<longrightarrow> fst (add_cube st c m) = Some ModelInconsistencyError)"
proof -
  let ?mine = "map snd (model_dimensions m)"
  let ?names = "map (\<lambda>a. dim_name (dim_heap st a)) ?mine"
  let ?loop = "add_cube_loop st ?mine ?names (map snd (cube_dimensions c)) m"
  note exact = add_cube_loop_exact [of st ?mine ?names "map snd (cube_dimensions c)" m]
  have accepted: "add_cube st c m =
        (None,
         m\<lparr> model_dimensions :=
               model_dimensions m
               @ map (\<lambda>a. (dim_name (dim_heap st a), a))
                   (new_dimensions ?mine (map snd (cube_dimensions c))),
             model_cubes := od_set (model_cubes m) (cube_name c) c \<rparr>)"
    if "add_cube_accepts st c m"
  proof -
    from that exact have "?loop =
        (None, m\<lparr>model_dimensions := model_dimensions m
                    @ map (\<lambda>a. (dim_name (dim_heap st a), a))
                        (new_dimensions ?mine (map snd (cube_dimensions c)))\<rparr>)"
      by (simp add: add_cube_accepts_def)
    then show ?thesis by (simp add: add_cube_def Let_def)
  qed
  have refused: "fst (add_cube st c m) = Some ModelInconsistencyError
        \<and> model_cubes (snd (add_cube st c m)) = model_cubes m"
    if "\<not> add_cube_accepts st c m"
  proof -
    from that exact have f: "fst ?loop = Some ModelInconsistencyError"
      by (simp add: add_cube_accepts_def)
    have c: "model_cubes (snd ?loop) = model_cubes m" by (rule add_cube_loop_cubes)
    from f c show ?thesis
      by (cases ?loop) (simp add: add_cube_def Let_def)
  qed
  have conflict: "fst (add_cube st c m) = Some ModelInconsistencyError"
    if "a \<in> set (map snd (cube_dimensions c))" "a \<notin> set ?mine"
       "a' \<in> set ?mine" "dim_name (dim_heap st a') = dim_name (dim_heap st a)" for a a'
  proof -
    from that(3,4) have "dim_name (dim_heap st a) \<in> set ?names" by force
    from add_cube_loop_conflict [OF that(1,2) this]
    have "fst ?loop = Some ModelInconsistencyError" .
    then show ?thesis
      by (cases ?loop) (simp add: add_cube_def Let_def)
  qed
  have success: "set (map snd (cube_dimensions c))
        \<subseteq> set (map snd (model_dimensions (snd (add_cube st c m))))
      \<and> set (map snd (model_dimensions (snd (add_cube st c m))))
          = set (map snd (model_dimensions m)) \<union> set (map snd (cube_dimensions c))
      \<and> map_of (model_cubes (snd (add_cube st c m))) (cube_name c) = Some c"
    if ok: "fst (add_cube st c m) = None"
  proof -
    obtain r m' where l: "?loop = (r, m')" by (cases ?loop)
    with ok have r: "r = None" by (cases r) (simp_all add: add_cube_def Let_def)
    from l r have res: "snd (add_cube st c m)
                        = m'\<lparr>model_cubes := od_set (model_cubes m') (cube_name c) c\<rparr>"
      by (simp add: add_cube_def Let_def)
    from l r have "?loop = (None, m')" by simp
    from add_cube_loop_success [OF this]
    have "set (map snd (model_dimensions m')) = set ?mine \<union> set (map snd (cube_dimensions c))"
      by simp
    with res show ?thesis by (simp add: map_of_od_set)
  qed
  have third: "fst (add_cube st c m) = Some ModelInconsistencyError"
    if k: "model_keyed st m" and a: "a \<in> set (map snd (cube_dimensions c))"
      and a': "a' \<in> set ?mine" "dim_name (dim_heap st a') = dim_name (dim_heap st a)"
      and ne: "dim_heap st a' \<noteq> dim_heap st a" for a a'
  proof -
    have "a \<notin> set ?mine"
    proof
      assume "a \<in> set ?mine"
      from keyed_same_name [OF k this a'] ne show False by simp
    qed
    from conflict [OF a this a'] show ?thesis .
  qed
  from accepted refused success conflict third show ?thesis by blast
qed

theorem add_cube_registers_witness:
  "add_cube catalog_store visits_cube empty_model = (None, visits_model)
   \<and> add_cube catalog_store orders_cube visits_model = (None, orders_model)
   \<and> set (map snd (cube_dimensions orders_cube))
        \<subseteq> set (map snd (model_dimensions orders_model))
   \<and> model_keyed twin_store orders_model
   \<and> dim_heap twin_store 5 \<noteq> dim_heap twin_store 8
   \<and> add_cube twin_store stock_cube orders_model = (Some ModelInconsistencyError, orders_model)"
proof -
  have a1: "add_cube_accepts catalog_store visits_cube empty_model"
    by (simp add: add_cube_accepts_def add_cube_loop_accepts_def new_dimensions_def
        visits_cube_def empty_model_def cat_eval)
  have r1: "add_cube catalog_store visits_cube empty_model = (None, visits_model)"
    using add_cube_registers [of catalog_store visits_cube empty_model] a1
    by (simp add: new_dimensions_def visits_cube_def visits_model_def empty_model_def cat_eval)
  have a2: "add_cube_accepts catalog_store orders_cube visits_model"
    by (simp add: add_cube_accepts_def add_cube_loop_accepts_def new_dimensions_def
        orders_cube_def visits_model_def empty_model_def cat_eval)
  have r2: "add_cube catalog_store orders_cube visits_model = (None, orders_model)"
    using add_cube_registers [of catalog_store orders_cube visits_model] a2
    by (simp add: new_dimensions_def orders_cube_def visits_model_def orders_model_def
        empty_model_def cat_eval)
  have s2: "set (map snd (cube_dimensions orders_cube))
              \<subseteq> set (map snd (model_dimensions orders_model))"
    using add_cube_registers [of catalog_store orders_cube visits_model] r2 by simp
  have k: "model_keyed twin_store orders_model"
    by (simp add: model_keyed_def orders_model_def empty_model_def cat_eval)
  have ne: "dim_heap twin_store 5 \<noteq> dim_heap twin_store 8"
    by (simp add: cat_eval)
  have e: "fst (add_cube twin_store stock_cube orders_model) = Some ModelInconsistencyError"
    using add_cube_registers [of twin_store stock_cube orders_model] k ne
    by (simp add: stock_cube_def orders_model_def empty_model_def cat_eval)
  have m: "snd (add_cube twin_store stock_cube orders_model) = orders_model"
    by (simp add: add_cube_def Model_add_dimension_def stock_cube_def orders_model_def
        empty_model_def cat_eval Let_def)
  from e m have r3: "add_cube twin_store stock_cube orders_model
                     = (Some ModelInconsistencyError, orders_model)"
    by (cases "add_cube twin_store stock_cube orders_model") simp
  from r1 r2 s2 k ne r3 show ?thesis by (intro conjI)
qed

section \<open>Properties of the model provider\<close>

lemmas provider_eval = provider_cube_def merge_mappings_def merge_browser_options_def
  merge_joins_def deref_join_def dict_update_def dict_get_def plain_cube_metadata_def Let_def

text \<open>
  Claim C9 says that a call of \<^verbatim>\<open>cube(name)\<close> leaves the model-level metadata of the
  provider unchanged. The call \<^verbatim>\<open>cube("sales")\<close> writes the browser options of the cube
  \<^verbatim>\<open>sales\<close> into the model-level \<^verbatim>\<open>browser_options\<close>, and \<^verbatim>\<open>cube("stock")\<close> after it
  returns them for the cube \<^verbatim>\<open>stock\<close>, which on the untouched provider gets the
  model-level options alone.
\<close>

theorem cube_changes_model_browser_options:
  "mm_browser_options (prov_metadata (snd (provider_cube shop_provider ''sales'')))
     = Some [(''limit'', JInt 10), (''include_summary'', JBool False)]
   \<and> snd (provider_cube shop_provider ''sales'') \<noteq> shop_provider
   \<and> map_sum id cc_browser_options (fst (provider_cube shop_provider ''stock''))
     = Inr [(''limit'', JInt 10)]
   \<and> map_sum id cc_browser_options
       (fst (provider_cube (snd (provider_cube shop_provider ''sales'')) ''stock''))
     = Inr [(''limit'', JInt 10), (''include_summary'', JBool False)]"
  by (simp add: provider_eval shop_provider_def shop_metadata_def)

text \<open>
  Claim C4 says that a cube-level join overrides the model-level join of its name field
  by field. For a cube that uses the model-level join \<^verbatim>\<open>dates\<close> twice, \<^verbatim>\<open>cube("sales")\<close>
  returns the same dictionary twice, with the alias of the second use, where the first
  cube-level join laid over the model-level one has the alias \<^verbatim>\<open>order_date\<close>.
\<close>

theorem cube_joins_same_name_aliased:
  "map_sum id cc_joins (fst (provider_cube joins_provider ''sales''))
     = Inr (Some [dates_join @ [(''alias'', JStr ''ship_date'')],
                  dates_join @ [(''alias'', JStr ''ship_date'')]])
   \<and> dict_update dates_join [(''name'', JStr ''dates''), (''alias'', JStr ''order_date'')]
     = dates_join @ [(''alias'', JStr ''order_date'')]"
  by (simp add: provider_eval joins_provider_def dates_join_def)

text \<open>
  What \<^verbatim>\<open>cube()\<close> keeps: the cube metadata and the model-level mappings, joins and
  datastore always; the whole provider when the model has no browser options or the cube
  has none.
\<close>

lemma provider_cube_state:
  "snd (provider_cube p n) =
     (case map_of (prov_cubes_metadata p) n of
        None \<Rightarrow> p
      | Some md \<Rightarrow>
          (case merge_mappings (mm_mappings (prov_metadata p)) (cmd_mappings md) of
             Inl e \<Rightarrow> p
           | Inr mappings \<Rightarrow>
               p\<lparr>prov_metadata := (prov_metadata p)
                    \<lparr>mm_browser_options :=
                       snd (merge_browser_options (mm_browser_options (prov_metadata p))
                              (cmd_browser_options md))\<rparr>\<rparr>))"
proof (cases "map_of (prov_cubes_metadata p) n")
  case None
  then show ?thesis by (simp add: provider_cube_def)
next
  case (Some md)
  show ?thesis
  proof (cases "merge_mappings (mm_mappings (prov_metadata p)) (cmd_mappings md)")
    case (Inl e)
    with Some show ?thesis by (simp add: provider_cube_def)
  next
    case (Inr mappings)
    obtain bo mo where b: "merge_browser_options (mm_browser_options (prov_metadata p))
                        (cmd_browser_options md) = (bo, mo)" by force
    show ?thesis
    proof (cases "merge_joins (cmd_joins md) (mm_joins (prov_metadata p))")
      case (Inl e)
      with Some Inr b show ?thesis by (simp add: provider_cube_def Let_def)
    next
      case (Inr joins)
      with Some \<open>merge_mappings _ _ = Inr mappings\<close> b show ?thesis
        by (simp add: provider_cube_def Let_def)
    qed
  qed
qed

lemma provider_cube_frame:
  "prov_cubes_metadata (snd (provider_cube p n)) = prov_cubes_metadata p
   \<and> mm_mappings (prov_metadata (snd (provider_cube p n))) = mm_mappings (prov_metadata p)
   \<and> mm_joins (prov_metadata (snd (provider_cube p n))) = mm_joins (prov_metadata p)
   \<and> mm_datastore (prov_metadata (snd (provider_cube p n))) = mm_datastore (prov_metadata p)"
  by (simp add: provider_cube_state split: option.splits sum.splits)

lemma merge_browser_options_same:
  "mo = None \<or> co = None \<or> co = Some [] \<Longrightarrow> snd (merge_browser_options mo co) = mo"
  by (auto simp: merge_browser_options_def Let_def split: option.splits list.splits)

lemma provider_cube_unchanged:
  assumes "mm_browser_options (prov_metadata p) = None
           \<or> (\<forall>md. map_of (prov_cubes_metadata p) n = Some md
                  \<longrightarrow> cmd_browser_options md = None \<or> cmd_browser_options md = Some [])"
  shows "snd (provider_cube p n) = p"
proof (cases "map_of (prov_cubes_metadata p) n")
  case None
  then show ?thesis by (simp add: provider_cube_state)
next
  case (Some md)
  with assms have "snd (merge_browser_options (mm_browser_options (prov_metadata p))
                          (cmd_browser_options md)) = mm_browser_options (prov_metadata p)"
    by (intro merge_browser_options_same) auto
  with Some show ?thesis by (simp add: provider_cube_state split: sum.splits)
qed

text \<open>
  The join merge where no model-level join is used twice: invalid model-level joins are
  a \<^verbatim>\<open>ModelError\<close>, and the result is each cube-level join laid over the model-level
  join of its name.
\<close>

lemma map_of_od_set_other: "k' \<noteq> k \<Longrightarrow> map_of (od_set kvs k v) k' = map_of kvs k'"
  by (induction kvs) auto

lemma build_join_map_result:
  "build_join_map js acc = Inr jm \<Longrightarrow> jm = acc @ map (\<lambda>j. (join_key j, j)) js"
proof (induction js arbitrary: acc)
  case Nil
  then show ?case by simp
next
  case (Cons j js)
  from Cons.prems obtain name where n: "map_of j ''name'' = Some name"
    and r: "build_join_map js (acc @ [(py_key name, j)]) = Inr jm"
    by (auto split: option.splits if_splits)
  from n have "join_key j = py_key name" by (simp add: join_key_def dict_get_def)
  with Cons.IH [OF r] show ?case by simp
qed

lemma build_join_map_invalid:
  assumes "\<forall>j \<in> set js. hashable (dict_get j ''name'')"
    and "(\<exists>j \<in> set js. map_of j ''name'' = None)
         \<or> \<not> distinct (map fst acc @ map join_key js)"
    and "distinct (map fst acc)"
  shows "build_join_map js acc = Inl ModelError"
  using assms
proof (induction js arbitrary: acc)
  case Nil
  then show ?case by simp
next
  case (Cons j js)
  show ?case
  proof (cases "map_of j ''name''")
    case None
    then show ?thesis by simp
  next
    case (Some name)
    with Cons.prems(1) have h: "hashable name" by (simp add: dict_get_def)
    from Some have k: "join_key j = py_key name" by (simp add: join_key_def dict_get_def)
    show ?thesis
    proof (cases "py_key name \<in> set (map fst acc)")
      case True
      with Some h show ?thesis by simp
    next
      case False
      from Cons.prems(2) Some k False
      have "(\<exists>j \<in> set js. map_of j ''name'' = None)
            \<or> \<not> distinct (map fst (acc @ [(py_key name, j)]) @ map join_key js)"
        by auto
      moreover from False Cons.prems(3)
      have "distinct (map fst (acc @ [(py_key name, j)]))" by simp
      moreover from Cons.prems(1) have "\<forall>j \<in> set js. hashable (dict_get j ''name'')" by simp
      ultimately have "build_join_map js (acc @ [(py_key name, j)]) = Inl ModelError"
        by (rule Cons.IH [rotated])
      with Some h False show ?thesis by simp
    qed
  qed
qed

lemma merge_joins_loop_distinct:
  assumes "merge_joins_loop jm cjs acc = Inr (jm', refs)"
    and "distinct (map join_key cjs)"
  shows "\<exists>new. refs = acc @ new
           \<and> map (deref_join jm') new = map (merged_join jm) cjs
           \<and> (\<forall>k. k \<notin> set (map join_key cjs) \<longrightarrow> map_of jm' k = map_of jm k)"
  using assms
proof (induction cjs arbitrary: jm acc)
  case Nil
  then show ?case by simp
next
  case (Cons j js)
  let ?k = "join_key j"
  from Cons.prems(2) have d: "distinct (map join_key js)" and nk: "?k \<notin> set (map join_key js)"
    by simp_all
  from Cons.prems(1) have h: "hashable (dict_get j ''name'')"
    by (auto simp: Let_def split: if_splits)
  show ?case
  proof (cases "map_of jm ?k")
    case None
    with Cons.prems(1) h
    have "merge_joins_loop jm js (acc @ [Fresh (dict_update [] j)]) = Inr (jm', refs)"
      by (simp add: join_key_def Let_def)
    from Cons.IH [OF this d] obtain new where
      new: "refs = (acc @ [Fresh (dict_update [] j)]) @ new"
           "map (deref_join jm') new = map (merged_join jm) js"
           "\<forall>k. k \<notin> set (map join_key js) \<longrightarrow> map_of jm' k = map_of jm k"
      by blast
    have "refs = acc @ (Fresh (dict_update [] j) # new)" using new(1) by simp
    moreover have "map (deref_join jm') (Fresh (dict_update [] j) # new)
                   = map (merged_join jm) (j # js)"
      using new(2) None by (simp add: deref_join_def merged_join_def)
    moreover have "\<forall>k. k \<notin> set (map join_key (j # js)) \<longrightarrow> map_of jm' k = map_of jm k"
      using new(3) by simp
    ultimately show ?thesis by blast
  next
    case (Some mj)
    let ?jm1 = "od_set jm ?k (dict_update mj j)"
    from Cons.prems(1) h Some
    have "merge_joins_loop ?jm1 js (acc @ [Shared ?k]) = Inr (jm', refs)"
      by (simp add: join_key_def Let_def)
    from Cons.IH [OF this d] obtain new where
      new: "refs = (acc @ [Shared ?k]) @ new"
           "map (deref_join jm') new = map (merged_join ?jm1) js"
           "\<forall>k. k \<notin> set (map join_key js) \<longrightarrow> map_of jm' k = map_of ?jm1 k"
      by blast
    have same: "merged_join ?jm1 j' = merged_join jm j'" if "j' \<in> set js" for j'
    proof -
      from that nk have "join_key j' \<noteq> ?k" by (metis image_eqI set_map)
      then show ?thesis by (simp add: merged_join_def map_of_od_set_other)
    qed
    from new(3) nk have "map_of jm' ?k = Some (dict_update mj j)"
      by (simp add: map_of_od_set)
    then have first: "deref_join jm' (Shared ?k) = merged_join jm j"
      using Some by (simp add: deref_join_def merged_join_def)
    have "refs = acc @ (Shared ?k # new)" using new(1) by simp
    moreover have "map (deref_join jm') (Shared ?k # new) = map (merged_join jm) (j # js)"
      using new(2) first same by simp
    moreover have "\<forall>k. k \<notin> set (map join_key (j # js)) \<longrightarrow> map_of jm' k = map_of jm k"
      using new(3) by (simp add: map_of_od_set_other)
    ultimately show ?thesis by blast
  qed
qed

lemma merge_joins_loop_total:
  "\<forall>j \<in> set cjs. hashable (dict_get j ''name'')
   \<Longrightarrow> \<exists>r. merge_joins_loop jm cjs acc = Inr r"
  by (induction cjs arbitrary: jm acc) (auto simp: Let_def split: option.splits)

lemma merge_joins_distinct:
  assumes "cjs \<noteq> []" and "mjs \<noteq> []"
    and "build_join_map mjs [] = Inr jm"
    and "\<forall>j \<in> set cjs. hashable (dict_get j ''name'')"
    and "distinct (map join_key cjs)"
  shows "merge_joins (Some cjs) (Some mjs) = Inr (Some (map (merged_join jm) cjs))"
proof -
  from merge_joins_loop_total [OF assms(4)] obtain jm' refs
    where l: "merge_joins_loop jm cjs [] = Inr (jm', refs)" by force
  from merge_joins_loop_distinct [OF l assms(5)]
  have "map (deref_join jm') refs = map (merged_join jm) cjs" by auto
  with l assms(1,2,3) show ?thesis
    by (cases cjs; cases mjs) (simp_all add: merge_joins_def del: merge_joins_loop.simps build_join_map.simps)
qed

lemma merge_joins_invalid:
  assumes "cjs \<noteq> []" and "\<forall>j \<in> set mjs. hashable (dict_get j ''name'')"
    and "(\<exists>j \<in> set mjs. map_of j ''name'' = None) \<or> \<not> distinct (map join_key mjs)"
  shows "merge_joins (Some cjs) (Some mjs) = Inl ModelError"
proof -
  from assms(3) have ne: "mjs \<noteq> []" by auto
  from build_join_map_invalid [OF assms(2), of "[]"] assms(3)
  have "build_join_map mjs [] = Inl ModelError" by simp
  with assms(1) ne show ?thesis
    by (cases cjs; cases mjs) (simp_all add: merge_joins_def del: build_join_map.simps)
qed

section \<open>Properties of \<^verbatim>\<open>create_dimension\<close>\<close>


























end
